theory Spec2Isabelle
  imports Main "HOL-Library.Word"
begin

unbundle bit_operations_syntax

section \<open>Machine integers and constants\<close>

text \<open>
  All data of the driver is \<open>uint8_t\<close>: an 8-bit word whose arithmetic wraps. C computes
  in \<open>int\<close> and truncates on assignment to a \<open>uint8_t\<close>; for \<open>+\<close>, \<open>-\<close>, \<open>*\<close> and the
  bitwise operators that is the same as computing in the 8-bit word, and \<open>/\<close> and \<open>%\<close>
  are applied to values below 256 before anything can overflow.
\<close>

type_synonym u8 = "8 word"

text \<open>\<open>stdbool.h\<close>: \<open>true\<close> is 1 and \<open>false\<close> is 0 where a \<open>uint8_t\<close> is returned.\<close>

definition true :: u8 where [simp]: "true = 1"
definition false :: u8 where [simp]: "false = 0"

subsection \<open>ds3231.c and ds3231.h\<close>

definition READ_ADD :: u8 where [simp]: "READ_ADD = 0xD1"
definition WRITE_ADD :: u8 where [simp]: "WRITE_ADD = 0xD0"
definition SECDR :: u8 where [simp]: "SECDR = 0x00"
definition AL1DR :: u8 where [simp]: "AL1DR = 0x07"
definition AL2DR :: u8 where [simp]: "AL2DR = 0x0B"
definition CTRDR :: u8 where [simp]: "CTRDR = 0x0E"
definition STSDR :: u8 where [simp]: "STSDR = 0x0F"

definition ALARM_1 :: u8 where [simp]: "ALARM_1 = 0"
definition ALARM_2 :: u8 where [simp]: "ALARM_2 = 1"

definition ALARM_SEC :: u8 where [simp]: "ALARM_SEC = 0"
definition ALARM_SEC_M :: u8 where [simp]: "ALARM_SEC_M = 1"
definition ALARM_MIN_M :: u8 where [simp]: "ALARM_MIN_M = 2"
definition ALARM_HOUR_M :: u8 where [simp]: "ALARM_HOUR_M = 3"
definition ALARM_MDAY_M :: u8 where [simp]: "ALARM_MDAY_M = 4"
definition ALARM_WDAY_M :: u8 where [simp]: "ALARM_WDAY_M = 5"
definition ALARM_MIN :: u8 where [simp]: "ALARM_MIN = 6"

subsection \<open>twi.h\<close>

definition TWI_READ_BIT :: nat where [simp]: "TWI_READ_BIT = 0"
definition TWI_NACK_BIT :: nat where [simp]: "TWI_NACK_BIT = 0"

definition TWI_NO_DATA :: u8 where [simp]: "TWI_NO_DATA = 0x00"
definition TWI_DATA_OUT_OF_BOUND :: u8 where [simp]: "TWI_DATA_OUT_OF_BOUND = 0x01"
definition TWI_UE_START_CON :: u8 where [simp]: "TWI_UE_START_CON = 0x02"
definition TWI_UE_STOP_CON :: u8 where [simp]: "TWI_UE_STOP_CON = 0x03"
definition TWI_UE_DATA_COL :: u8 where [simp]: "TWI_UE_DATA_COL = 0x04"
definition TWI_NO_ACK_ON_DATA :: u8 where [simp]: "TWI_NO_ACK_ON_DATA = 0x05"
definition TWI_NO_ACK_ON_ADDRESS :: u8 where [simp]: "TWI_NO_ACK_ON_ADDRESS = 0x06"
definition TWI_MISSING_START_CON :: u8 where [simp]: "TWI_MISSING_START_CON = 0x07"
definition TWI_MISSING_STOP_CON :: u8 where [simp]: "TWI_MISSING_STOP_CON = 0x08"

subsection \<open>The USI register bits\<close>

text \<open>
  The bit positions of the USI status and control registers come from the toolchain's
  \<open>avr/io.h\<close>, which is not part of the repository; they are the same on every AVR
  with a USI (USISR: USISIF 7, USIOIF 6, USIPF 5, USIDC 4, USICNT 3..0; USICR: USISIE 7,
  USIOIE 6, USIWM 5..4, USICS 3..2, USICLK 1, USITC 0).
\<close>

definition USISIF :: nat where [simp]: "USISIF = 7"
definition USIOIF :: nat where [simp]: "USIOIF = 6"
definition USIPF :: nat where [simp]: "USIPF = 5"
definition USIDC :: nat where [simp]: "USIDC = 4"
definition USICNT0 :: nat where [simp]: "USICNT0 = 0"

definition USISIE :: nat where [simp]: "USISIE = 7"
definition USIOIE :: nat where [simp]: "USIOIE = 6"
definition USIWM1 :: nat where [simp]: "USIWM1 = 5"
definition USIWM0 :: nat where [simp]: "USIWM0 = 4"
definition USICS1 :: nat where [simp]: "USICS1 = 3"
definition USICS0 :: nat where [simp]: "USICS0 = 2"
definition USICLK :: nat where [simp]: "USICLK = 1"
definition USITC :: nat where [simp]: "USITC = 0"

section \<open>Binary coded decimal (ds3231.c, dec2bcd and bcd2dec)\<close>

definition dec2bcd :: "u8 \<Rightarrow> u8" where
  "dec2bcd d = (d div 10 * 16) + (d mod 10)"

definition bcd2dec :: "u8 \<Rightarrow> u8" where
  "bcd2dec b = (b div 16 * 10) + (b mod 16)"

section \<open>The machine: globals, the USI and the two bus lines\<close>

text \<open>
  \<open>struct time\<close> of ds3231.h. Every field is a \<open>uint8_t\<close>, the year too. The fields carry
  the prefix \<open>t_\<close> because \<open>min\<close> is a constant of HOL and \<open>hour\<close>, \<open>min\<close> and \<open>sec\<close> are
  parameter names of the driver's functions.
\<close>

record time =
  t_sec :: u8
  t_min :: u8
  t_hour :: u8
  t_mday :: u8
  t_mon :: u8
  t_year :: u8
  t_wday :: u8
  t_am :: bool
  t_twelveHour :: u8

text \<open>
  What the driver does on the bus, in order: the start condition of
  \<open>TWI_start_transceiver_with_data\<close>, every call of \<open>TWI_master_transfer\<close> (with the
  counter setting written to USISR, the data register's content when the call began
  and the content read back when it ended) and every call of \<open>TWI_master_stop\<close>.
\<close>

datatype event = StartCond | Shift u8 u8 u8 | StopCond

text \<open>
  The state the code reads and writes.
  \<^item> \<open>PORT_SDA\<close>, \<open>PORT_SCL\<close>, \<open>DDR_SDA\<close>: the bits \<open>PIN_TWI_SDA\<close> and \<open>PIN_TWI_SCL\<close> of
    \<open>PORT_TWI\<close> and \<open>DDR_TWI\<close> (the positions depend on the device and no other bit of
    the two registers is touched).
  \<^item> \<open>USIDR\<close>, \<open>USISR\<close>, \<open>USICR\<close>: the value last written to the register.
  \<^item> \<open>TWI_state\<close>: the byte of \<open>union TWI_state\<close>; the bit-fields \<open>addressMode\<close> and
    \<open>masterWrite\<close> are its bits 0 and 1 (avr-gcc allocates bit-fields from the least
    significant bit).
  \<^item> \<open>g_time\<close>: the global \<open>_time\<close> of ds3231.c.
  \<^item> \<open>pin_scl\<close>, \<open>usisr_in\<close>, \<open>usidr_in\<close>: what the hardware presents. The registers
    are volatile, so each read takes the next sample: of
    \<open>PIN_TWI & (1 << PIN_TWI_SCL)\<close> being non-zero, of USISR and of USIDR. Once a list
    is used up the line reads low and the register reads 0 for ever.
  \<^item> \<open>bus_log\<close>: the events so far (not a variable of the code).
  \<open>_delay_us\<close> changes nothing of this state and is left out.
\<close>

record machine =
  PORT_SDA :: bool
  PORT_SCL :: bool
  DDR_SDA :: bool
  USIDR :: u8
  USISR :: u8
  USICR :: u8
  TWI_state :: u8
  g_time :: time
  pin_scl :: "bool list"
  usisr_in :: "u8 list"
  usidr_in :: "u8 list"
  bus_log :: "event list"

text \<open>
  A call that does not return a value: a busy-wait that never ends, an access past the
  end of the buffer, or a store through a NULL pointer.
\<close>

datatype fault = Hang | BufferOverrun | NullDeref

definition addressMode :: "machine \<Rightarrow> bool" where
  "addressMode s = bit (TWI_state s) 0"

definition masterWrite :: "machine \<Rightarrow> bool" where
  "masterWrite s = bit (TWI_state s) 1"

definition set_addressMode :: "bool \<Rightarrow> machine \<Rightarrow> machine" where
  "set_addressMode b s =
     s\<lparr>TWI_state := (if b then TWI_state s OR 1 else TWI_state s AND NOT 1)\<rparr>"

definition set_masterWrite :: "bool \<Rightarrow> machine \<Rightarrow> machine" where
  "set_masterWrite b s =
     s\<lparr>TWI_state := (if b then TWI_state s OR 2 else TWI_state s AND NOT 2)\<rparr>"

definition read_USISR :: "machine \<Rightarrow> u8 \<times> machine" where
  "read_USISR s =
     (case usisr_in s of [] \<Rightarrow> (0, s) | x # xs \<Rightarrow> (x, s\<lparr>usisr_in := xs\<rparr>))"

definition read_USIDR :: "machine \<Rightarrow> u8 \<times> machine" where
  "read_USIDR s =
     (case usidr_in s of [] \<Rightarrow> (0, s) | x # xs \<Rightarrow> (x, s\<lparr>usidr_in := xs\<rparr>))"

text \<open>\<open>while (!(PIN_TWI & (1 << PIN_TWI_SCL)));\<close> returns what is left of the samples.\<close>

fun wait_SCL :: "bool list \<Rightarrow> fault + bool list" where
  "wait_SCL [] = Inl Hang"
| "wait_SCL (p # ps) = (if p then Inr ps else wait_SCL ps)"

section \<open>twi.c\<close>

definition tempUSISR_8bit :: u8 where
  "tempUSISR_8bit =
     push_bit USISIF 1 OR push_bit USIOIF 1 OR push_bit USIPF 1 OR push_bit USIDC 1
       OR push_bit USICNT0 0x0"

definition tempUSISR_1bit :: u8 where
  "tempUSISR_1bit =
     push_bit USISIF 1 OR push_bit USIOIF 1 OR push_bit USIPF 1 OR push_bit USIDC 1
       OR push_bit USICNT0 0xE"

text \<open>The value \<open>TWI_master_transfer\<close> writes to USICR on every clock edge.\<close>

definition clock_USICR :: u8 where
  "clock_USICR =
     push_bit USISIE 0 OR push_bit USIOIE 0 OR push_bit USIWM1 1 OR push_bit USIWM0 1
       OR push_bit USICS1 1 OR push_bit USICS0 0 OR push_bit USICLK 1 OR push_bit USITC 0"

text \<open>
  The do-while loop of \<open>TWI_master_transfer\<close>: each round waits for SCL to go high and
  then reads USISR once, until the counter overflow flag is set.
\<close>

fun clock_loop :: "u8 list \<Rightarrow> bool list \<Rightarrow> fault + (u8 list \<times> bool list)" where
  "clock_loop [] pins = Inl Hang"
| "clock_loop (sr # srs) pins =
     (case wait_SCL pins of
        Inl e \<Rightarrow> Inl e
      | Inr pins' \<Rightarrow>
          if sr AND push_bit USIOIF 1 \<noteq> 0 then Inr (srs, pins') else clock_loop srs pins')"

definition TWI_master_transfer :: "u8 \<Rightarrow> machine \<Rightarrow> fault + (u8 \<times> machine)" where
  "TWI_master_transfer temp s =
     (case clock_loop (usisr_in s) (pin_scl s) of
        Inl e \<Rightarrow> Inl e
      | Inr (srs, pins) \<Rightarrow>
          (let s1 = s\<lparr>USISR := temp, USICR := clock_USICR, usisr_in := srs, pin_scl := pins\<rparr>;
               (d, s2) = read_USIDR s1
           in Inr (d, s2\<lparr>USIDR := 0xFF, DDR_SDA := True,
                          bus_log := bus_log s2 @ [Shift temp (USIDR s) d]\<rparr>)))"

definition TWI_master_stop :: "machine \<Rightarrow> fault + (u8 \<times> machine)" where
  "TWI_master_stop s =
     (let s1 = s\<lparr>PORT_SDA := False, PORT_SCL := True, bus_log := bus_log s @ [StopCond]\<rparr>
      in case wait_SCL (pin_scl s1) of
           Inl e \<Rightarrow> Inl e
         | Inr pins \<Rightarrow>
             (let s2 = s1\<lparr>pin_scl := pins, PORT_SDA := True\<rparr>;
                  (sr, s3) = read_USISR s2
              in if sr AND push_bit USIPF 1 = 0
                 then Inr (false, s3\<lparr>TWI_state := TWI_MISSING_STOP_CON\<rparr>)
                 else Inr (true, s3)))"

text \<open>
  The do-while loop of \<open>TWI_start_transceiver_with_data\<close> together with what follows
  it, so that its value is the value of the call: \<open>msg\<close> is the buffer, \<open>i\<close> the index the
  pointer \<open>msg\<close> of the code has reached, \<open>msgSize\<close> the bytes left.
\<close>

function TWI_transfer_loop ::
  "u8 list \<Rightarrow> nat \<Rightarrow> u8 \<Rightarrow> machine \<Rightarrow> fault + (u8 \<times> u8 list \<times> machine)" where
  "TWI_transfer_loop msg i msgSize s =
     (if length msg \<le> i then Inl BufferOverrun
      else if addressMode s \<or> masterWrite s then
        (case TWI_master_transfer tempUSISR_8bit (s\<lparr>PORT_SCL := False, USIDR := msg ! i\<rparr>) of
           Inl e \<Rightarrow> Inl e
         | Inr (x, s1) \<Rightarrow>
             (case TWI_master_transfer tempUSISR_1bit (s1\<lparr>DDR_SDA := False\<rparr>) of
                Inl e \<Rightarrow> Inl e
              | Inr (a, s2) \<Rightarrow>
                  if a AND push_bit TWI_NACK_BIT 1 \<noteq> 0 then
                    Inr (false, msg,
                         s2\<lparr>TWI_state := (if addressMode s2 then TWI_NO_ACK_ON_ADDRESS
                                           else TWI_NO_ACK_ON_DATA)\<rparr>)
                  else if msgSize - 1 \<noteq> 0 then
                    TWI_transfer_loop msg (i + 1) (msgSize - 1) (set_addressMode False s2)
                  else
                    (case TWI_master_stop (set_addressMode False s2) of
                       Inl e \<Rightarrow> Inl e
                     | Inr (r, s3) \<Rightarrow> Inr (true, msg, s3))))
      else
        (case TWI_master_transfer tempUSISR_8bit (s\<lparr>DDR_SDA := False\<rparr>) of
           Inl e \<Rightarrow> Inl e
         | Inr (x, s1) \<Rightarrow>
             (case TWI_master_transfer tempUSISR_1bit
                     (s1\<lparr>USIDR := (if msgSize = 1 then 0xFF else 0x00)\<rparr>) of
                Inl e \<Rightarrow> Inl e
              | Inr (a, s2) \<Rightarrow>
                  if msgSize - 1 \<noteq> 0 then
                    TWI_transfer_loop (msg[i := x]) (i + 1) (msgSize - 1) s2
                  else
                    (case TWI_master_stop s2 of
                       Inl e \<Rightarrow> Inl e
                     | Inr (r, s3) \<Rightarrow> Inr (true, msg[i := x], s3)))))"
  by pat_completeness auto
termination
proof -
  have less: "unat (w - 2) < unat (w - 1)" if "w \<noteq> 1" for w :: u8
    using that unat_minus_one [of "w - 1"] by (simp add: unat_gt_0 flip: diff_diff_eq)
  show ?thesis
    by (relation "measure (\<lambda>(msg, i, msgSize, s). unat (msgSize - 1))")
       (auto simp: less)
qed

declare TWI_transfer_loop.simps [simp del]

text \<open>
  \<open>TWI_start_transceiver_with_data\<close> up to its do-while loop: either the call returns
  early (\<open>Inl\<close> of the value returned and the machine) or the loop is entered (\<open>Inr\<close> of
  the machine at its first round). \<open>oob\<close> stands for \<open>msg > (uint8_t*)RAMEND\<close>, the only
  use the code makes of the buffer's address. USISR is read once for each test of a
  flag.
\<close>

definition TWI_begin ::
  "bool \<Rightarrow> u8 list \<Rightarrow> u8 \<Rightarrow> machine \<Rightarrow> fault + ((u8 \<times> machine) + machine)" where
  "TWI_begin oob msg msgSize s0 =
     (let s = set_addressMode True (s0\<lparr>TWI_state := 0\<rparr>) in
      if oob then Inr (Inl (false, s\<lparr>TWI_state := TWI_DATA_OUT_OF_BOUND\<rparr>))
      else if msgSize \<le> 1 then Inr (Inl (false, s\<lparr>TWI_state := TWI_NO_DATA\<rparr>))
      else
        (let (sr1, s) = read_USISR s in
         if sr1 AND push_bit USISIF 1 \<noteq> 0
         then Inr (Inl (false, s\<lparr>TWI_state := TWI_UE_START_CON\<rparr>))
         else
           (let (sr2, s) = read_USISR s in
            if sr2 AND push_bit USIPF 1 \<noteq> 0
            then Inr (Inl (false, s\<lparr>TWI_state := TWI_UE_STOP_CON\<rparr>))
            else
              (let (sr3, s) = read_USISR s in
               if sr3 AND push_bit USIDC 1 \<noteq> 0
               then Inr (Inl (false, s\<lparr>TWI_state := TWI_UE_DATA_COL\<rparr>))
               else if msg = [] then Inl BufferOverrun
               else
                 (let s = (if msg ! 0 AND push_bit TWI_READ_BIT 1 = 0
                           then set_masterWrite True s else s);
                      s = s\<lparr>PORT_SCL := True\<rparr>
                  in case wait_SCL (pin_scl s) of
                       Inl e \<Rightarrow> Inl e
                     | Inr pins \<Rightarrow>
                         (let s = s\<lparr>pin_scl := pins\<rparr>;
                              s = s\<lparr>PORT_SDA := False\<rparr>;
                              s = s\<lparr>PORT_SCL := False\<rparr>;
                              s = s\<lparr>PORT_SDA := True, bus_log := bus_log s @ [StartCond]\<rparr>;
                              (sr4, s) = read_USISR s
                          in if sr4 AND push_bit USISIF 1 = 0
                             then Inr (Inl (true, s\<lparr>TWI_state := TWI_MISSING_START_CON\<rparr>))
                             else Inr (Inr s)))))))"

definition TWI_start_transceiver_with_data ::
  "bool \<Rightarrow> u8 list \<Rightarrow> u8 \<Rightarrow> machine \<Rightarrow> fault + (u8 \<times> u8 list \<times> machine)" where
  "TWI_start_transceiver_with_data oob msg msgSize s0 =
     (case TWI_begin oob msg msgSize s0 of
        Inl e \<Rightarrow> Inl e
      | Inr (Inl (r, s)) \<Rightarrow> Inr (r, msg, s)
      | Inr (Inr s) \<Rightarrow> TWI_transfer_loop msg 0 msgSize s)"

text \<open>
  The rounds of the loop in which a byte was written and acknowledged: from the round
  \<open>c\<close> (the index, the bytes left and the machine at its start) the loop reaches the
  start of a later round when every byte in between was clocked out and the remote
  device answered each with a 0 on the acknowledgement bit.
\<close>

inductive write_acked :: "u8 list \<Rightarrow> nat \<times> u8 \<times> machine \<Rightarrow> nat \<times> u8 \<times> machine \<Rightarrow> bool"
  for msg :: "u8 list" and c :: "nat \<times> u8 \<times> machine" where
  first_round: "write_acked msg c c"
| next_round:
    "write_acked msg c (i, n, s) \<Longrightarrow> i < length msg \<Longrightarrow> addressMode s \<or> masterWrite s \<Longrightarrow>
     TWI_master_transfer tempUSISR_8bit (s\<lparr>PORT_SCL := False, USIDR := msg ! i\<rparr>) = Inr (x, s1) \<Longrightarrow>
     TWI_master_transfer tempUSISR_1bit (s1\<lparr>DDR_SDA := False\<rparr>) = Inr (a, s2) \<Longrightarrow>
     a AND push_bit TWI_NACK_BIT 1 = 0 \<Longrightarrow> n - 1 \<noteq> 0 \<Longrightarrow>
     write_acked msg c (i + 1, n - 1, set_addressMode False s2)"

section \<open>ds3231.c\<close>

text \<open>
  A local array \<open>msgBuf\<close> is not initialised: \<open>junk k\<close> is what the stack holds at its
  element \<open>k\<close> when the function is entered. Every buffer is a local array, so it lies
  inside the SRAM and the test \<open>msg > RAMEND\<close> of the transceiver is false.
\<close>

subsection \<open>ds3231_get_time\<close>

text \<open>
  The lines from \<open>// Update stored time\<close> to the end of the 12-hour block: every field
  of \<open>_time\<close> is assigned. The additions \<open>2000 + ...\<close> and \<open>1900 + ...\<close> are made in \<open>int\<close>
  and stored in the \<open>uint8_t\<close> field \<open>year\<close>.
\<close>

definition update_stored_time :: "u8 list \<Rightarrow> time \<Rightarrow> time" where
  "update_stored_time msgBuf t0 =
     (let t = t0\<lparr>t_sec := bcd2dec (msgBuf ! 1)\<rparr>;
          t = t\<lparr>t_min := bcd2dec (msgBuf ! 2)\<rparr>;
          t = t\<lparr>t_hour := bcd2dec (msgBuf ! 3)\<rparr>;
          t = t\<lparr>t_wday := bcd2dec (msgBuf ! 4)\<rparr>;
          t = t\<lparr>t_mday := bcd2dec (msgBuf ! 5)\<rparr>;
          t = t\<lparr>t_mon := bcd2dec (msgBuf ! 6) AND 0x1F\<rparr>;
          century = drop_bit 7 (msgBuf ! 6 AND 0x80);
          t = t\<lparr>t_year := (if century = 1
                            then word_of_nat (2000 + unat (bcd2dec (msgBuf ! 7)))
                            else word_of_nat (1900 + unat (bcd2dec (msgBuf ! 7))))\<rparr>
      in if t_hour t = 0 then t\<lparr>t_twelveHour := 0, t_am := True\<rparr>
         else if t_hour t < 12 then t\<lparr>t_twelveHour := t_hour t, t_am := True\<rparr>
         else t\<lparr>t_twelveHour := t_hour t - 12, t_am := False\<rparr>)"

text \<open>
  \<open>time_arg\<close> is the caller's struct \<open>*time_\<close>; the call returns the value of the
  function, the struct afterwards and the machine.
\<close>

definition ds3231_get_time ::
  "time \<Rightarrow> (nat \<Rightarrow> u8) \<Rightarrow> machine \<Rightarrow> fault + (u8 \<times> time \<times> machine)" where
  "ds3231_get_time time_arg junk s0 =
     (let msgBuf = map junk [0..<8];
          msgBuf = msgBuf[0 := WRITE_ADD];
          msgBuf = msgBuf[1 := SECDR]
      in case TWI_start_transceiver_with_data False msgBuf 2 s0 of
           Inl e \<Rightarrow> Inl e
         | Inr (r1, msgBuf, s1) \<Rightarrow>
             if r1 \<noteq> 0 then Inr (false, time_arg, s1)
             else
               (case TWI_start_transceiver_with_data False (msgBuf[0 := READ_ADD]) 8 s1 of
                  Inl e \<Rightarrow> Inl e
                | Inr (r2, msgBuf, s2) \<Rightarrow>
                    if r2 \<noteq> 0 then Inr (false, time_arg, s2)
                    else
                      (let s3 = s2\<lparr>g_time := update_stored_time msgBuf (g_time s2)\<rparr>
                       in Inr (true, g_time s3, s3))))"

subsection \<open>ds3231_get_time_s\<close>

text \<open>
  The three output pointers are addresses of the caller's memory \<open>mem\<close>, or \<open>None\<close> for
  NULL. A store through NULL is a fault; the code guards each store with a test of the
  pointer.
\<close>

definition store_u8 :: "nat option \<Rightarrow> u8 \<Rightarrow> (nat \<Rightarrow> u8) \<Rightarrow> fault + (nat \<Rightarrow> u8)" where
  "store_u8 p v mem = (case p of None \<Rightarrow> Inl NullDeref | Some a \<Rightarrow> Inr (mem(a := v)))"

definition ds3231_get_time_s ::
  "nat option \<Rightarrow> nat option \<Rightarrow> nat option \<Rightarrow> (nat \<Rightarrow> u8) \<Rightarrow> (nat \<Rightarrow> u8) \<Rightarrow> machine
     \<Rightarrow> fault + (u8 \<times> (nat \<Rightarrow> u8) \<times> machine)" where
  "ds3231_get_time_s hour minute sec junk mem s0 =
     (let msgBuf = map junk [0..<4];
          msgBuf = msgBuf[0 := WRITE_ADD];
          msgBuf = msgBuf[1 := SECDR]
      in case TWI_start_transceiver_with_data False msgBuf 2 s0 of
           Inl e \<Rightarrow> Inl e
         | Inr (r1, msgBuf, s1) \<Rightarrow>
             if r1 \<noteq> 0 then Inr (false, mem, s1)
             else
               (case TWI_start_transceiver_with_data False (msgBuf[0 := READ_ADD]) 4 s1 of
                  Inl e \<Rightarrow> Inl e
                | Inr (r2, msgBuf, s2) \<Rightarrow>
                    if r2 \<noteq> 0 then Inr (false, mem, s2)
                    else
                      (case (if sec \<noteq> None then store_u8 sec (bcd2dec (msgBuf ! 1)) mem
                             else Inr mem) of
                         Inl e \<Rightarrow> Inl e
                       | Inr mem1 \<Rightarrow>
                           (case (if minute \<noteq> None
                                  then store_u8 minute (bcd2dec (msgBuf ! 2)) mem1
                                  else Inr mem1) of
                              Inl e \<Rightarrow> Inl e
                            | Inr mem2 \<Rightarrow>
                                (case (if hour \<noteq> None
                                       then store_u8 hour (bcd2dec (msgBuf ! 3)) mem2
                                       else Inr mem2) of
                                   Inl e \<Rightarrow> Inl e
                                 | Inr mem3 \<Rightarrow> Inr (true, mem3, s2))))))"

subsection \<open>ds3231_set_time\<close>

text \<open>
  The century block and the buffer of \<open>ds3231_set_time\<close>: the struct as the call leaves
  it (the year reduced in place) and the nine bytes handed to the transceiver. The
  field \<open>year\<close> is a \<open>uint8_t\<close>, compared with 2000 after promotion to \<open>int\<close>; the
  differences are stored back into the \<open>uint8_t\<close>.
\<close>

definition set_time_msgBuf :: "time \<Rightarrow> (nat \<Rightarrow> u8) \<Rightarrow> time \<times> u8 list" where
  "set_time_msgBuf time_arg junk =
     (let (century, t) =
            (if unat (t_year time_arg) > 2000
             then (0x80 :: u8, time_arg\<lparr>t_year := t_year time_arg - word_of_nat 2000\<rparr>)
             else (0x00, time_arg\<lparr>t_year := t_year time_arg - word_of_nat 1900\<rparr>));
          msgBuf = map junk [0..<9];
          msgBuf = msgBuf[0 := WRITE_ADD];
          msgBuf = msgBuf[1 := SECDR];
          msgBuf = msgBuf[2 := dec2bcd (t_sec t)];
          msgBuf = msgBuf[3 := dec2bcd (t_min t)];
          msgBuf = msgBuf[4 := dec2bcd (t_hour t)];
          msgBuf = msgBuf[5 := dec2bcd (t_wday t)];
          msgBuf = msgBuf[6 := dec2bcd (t_mday t)];
          msgBuf = msgBuf[7 := dec2bcd (t_mon t) + century];
          msgBuf = msgBuf[8 := dec2bcd (t_year t)]
      in (t, msgBuf))"

definition ds3231_set_time ::
  "time \<Rightarrow> (nat \<Rightarrow> u8) \<Rightarrow> machine \<Rightarrow> fault + (u8 \<times> time \<times> machine)" where
  "ds3231_set_time time_arg junk s0 =
     (let (t, msgBuf) = set_time_msgBuf time_arg junk
      in case TWI_start_transceiver_with_data False msgBuf 9 s0 of
           Inl e \<Rightarrow> Inl e
         | Inr (r, msgBuf, s1) \<Rightarrow>
             if r \<noteq> 0 then Inr (false, t, s1) else Inr (true, t, s1))"

subsection \<open>ds3231_SQW_enable\<close>

text \<open>The new content of the control register, from the byte in \<open>msgBuf[1]\<close>.\<close>

definition SQW_control :: "bool \<Rightarrow> u8 \<Rightarrow> u8" where
  "SQW_control enable b = (if enable then (b OR 0x40) AND 0xFB else b AND 0xBF)"

definition ds3231_SQW_enable ::
  "bool \<Rightarrow> (nat \<Rightarrow> u8) \<Rightarrow> machine \<Rightarrow> fault + (u8 \<times> machine)" where
  "ds3231_SQW_enable enable junk s0 =
     (let msgBuf = map junk [0..<3];
          msgBuf = msgBuf[0 := WRITE_ADD];
          msgBuf = msgBuf[1 := CTRDR]
      in case TWI_start_transceiver_with_data False msgBuf 2 s0 of
           Inl e \<Rightarrow> Inl e
         | Inr (r1, msgBuf, s1) \<Rightarrow>
             if r1 \<noteq> 0 then Inr (false, s1)
             else
               (case TWI_start_transceiver_with_data False (msgBuf[0 := READ_ADD]) 2 s1 of
                  Inl e \<Rightarrow> Inl e
                | Inr (r2, msgBuf, s2) \<Rightarrow>
                    if r2 \<noteq> 0 then Inr (false, s2)
                    else
                      (let msgBuf = msgBuf[1 := SQW_control enable (msgBuf ! 1)];
                           msgBuf = msgBuf[0 := WRITE_ADD];
                           msgBuf = msgBuf[2 := msgBuf ! 1];
                           msgBuf = msgBuf[1 := CTRDR]
                       in case TWI_start_transceiver_with_data False msgBuf 3 s2 of
                            Inl e \<Rightarrow> Inl e
                          | Inr (r3, msgBuf, s3) \<Rightarrow>
                              if r3 \<noteq> 0 then Inr (false, s3) else Inr (true, s3))))"

subsection \<open>ds3231_set_alarm_s\<close>

text \<open>
  twi.h defines \<open>PARAM_VERIFICATION\<close> and ds3231.c includes it, so the parameter tests
  are compiled in. \<open>intrpt > 1\<close> is never true of a \<open>bool\<close>.
\<close>

definition set_alarm_rejects :: "u8 \<Rightarrow> u8 \<Rightarrow> u8 \<Rightarrow> u8 \<Rightarrow> u8 \<Rightarrow> u8 \<Rightarrow> bool" where
  "set_alarm_rejects day hour minute sec alarm mode =
     (if mode = ALARM_WDAY_M \<and> day > 7 then True
      else if mode = ALARM_MDAY_M \<and> day > 31 then True
      else if hour > 23 then True
      else if minute > 59 then True
      else if sec > 59 then True
      else if alarm > 1 then True
      else False)"

text \<open>The block \<open>// Write the alarm time\<close>: the buffer handed to the last transfer.\<close>

definition alarm_time_msgBuf ::
  "u8 \<Rightarrow> u8 \<Rightarrow> u8 \<Rightarrow> u8 \<Rightarrow> u8 \<Rightarrow> u8 \<Rightarrow> u8 list \<Rightarrow> u8 list" where
  "alarm_time_msgBuf day hour minute sec alarm mode msgBuf0 =
     (let msgBuf = msgBuf0[0 := WRITE_ADD]
      in if alarm = ALARM_1 then
           (let msgBuf = msgBuf[1 := AL1DR];
                msgBuf = msgBuf[2 := dec2bcd sec OR (if mode = ALARM_SEC then 0x80 else 0x00)];
                msgBuf = msgBuf[3 := dec2bcd minute
                                       OR (if mode \<le> ALARM_SEC_M then 0x80 else 0x00)];
                msgBuf = msgBuf[4 := dec2bcd hour
                                       OR (if mode \<le> ALARM_MIN_M then 0x80 else 0x00)];
                msgBuf = msgBuf[5 := dec2bcd day
                                       OR (if mode \<le> ALARM_HOUR_M then 0x80 else 0x00)
                                       OR (if mode = ALARM_WDAY_M then 0x40 else 0x00)]
            in msgBuf)
         else
           (let msgBuf = msgBuf[1 := AL2DR];
                msgBuf = msgBuf[2 := dec2bcd minute
                                       OR (if mode = ALARM_MIN then 0x80 else 0x00)];
                msgBuf = msgBuf[3 := dec2bcd hour
                                       OR (if mode \<le> ALARM_MIN_M then 0x80 else 0x00)];
                msgBuf = msgBuf[4 := dec2bcd day
                                       OR (if mode \<le> ALARM_HOUR_M then 0x80 else 0x00)
                                       OR (if mode = ALARM_WDAY_M then 0x40 else 0x00)]
            in msgBuf))"

definition ds3231_set_alarm_s ::
  "u8 \<Rightarrow> u8 \<Rightarrow> u8 \<Rightarrow> u8 \<Rightarrow> u8 \<Rightarrow> u8 \<Rightarrow> bool \<Rightarrow> (nat \<Rightarrow> u8) \<Rightarrow> machine
     \<Rightarrow> fault + (u8 \<times> machine)" where
  "ds3231_set_alarm_s day hour minute sec alarm mode intrpt junk s0 =
     (if set_alarm_rejects day hour minute sec alarm mode then Inr (false, s0)
      else
        (let msgBuf = map junk [0..<(if alarm = ALARM_1 then 6 else 5)];
             msgBuf = msgBuf[0 := WRITE_ADD];
             msgBuf = msgBuf[1 := CTRDR]
         in case TWI_start_transceiver_with_data False msgBuf 2 s0 of
              Inl e \<Rightarrow> Inl e
            | Inr (r1, msgBuf, s1) \<Rightarrow>
                if r1 \<noteq> 0 then Inr (false, s1)
                else
                  (case TWI_start_transceiver_with_data False (msgBuf[0 := READ_ADD]) 2 s1 of
                     Inl e \<Rightarrow> Inl e
                   | Inr (r2, msgBuf, s2) \<Rightarrow>
                       if r2 \<noteq> 0 then Inr (false, s2)
                       else
                         (let msgBuf =
                                (if intrpt
                                 then msgBuf[1 := msgBuf ! 1 OR push_bit (unat alarm) 1]
                                 else msgBuf[1 := msgBuf ! 1 AND NOT (push_bit (unat alarm) 1)]);
                              msgBuf = msgBuf[0 := WRITE_ADD];
                              msgBuf = msgBuf[2 := msgBuf ! 1];
                              msgBuf = msgBuf[1 := CTRDR]
                          in case TWI_start_transceiver_with_data False msgBuf 3 s2 of
                               Inl e \<Rightarrow> Inl e
                             | Inr (r3, msgBuf, s3) \<Rightarrow>
                                 if r3 \<noteq> 0 then Inr (false, s3)
                                 else
                                   (case TWI_start_transceiver_with_data False
                                           (alarm_time_msgBuf day hour minute sec alarm mode
                                              msgBuf)
                                           (if alarm = ALARM_1 then 6 else 5) s3 of
                                      Inl e \<Rightarrow> Inl e
                                    | Inr (r4, msgBuf, s4) \<Rightarrow>
                                        if r4 \<noteq> 0 then Inr (false, s4)
                                        else Inr (true, s4))))))"

subsection \<open>ds3231_get_alarm_s\<close>

text \<open>
  The caller's variables behind the output pointers \<open>day\<close>, \<open>hour\<close>, \<open>min\<close>, \<open>sec\<close>,
  \<open>mode\<close> and \<open>intrpt\<close> (taken to be valid and distinct).
\<close>

record alarm_out =
  o_day :: u8
  o_hour :: u8
  o_min :: u8
  o_sec :: u8
  o_mode :: u8
  o_intrpt :: bool

text \<open>The line \<open>*intrpt = (msgBuf[1] & ~(1 << alarm));\<close>, the value converted to \<open>bool\<close>.\<close>

definition alarm_enabled_bit :: "u8 \<Rightarrow> u8 \<Rightarrow> bool" where
  "alarm_enabled_bit b alarm = (b AND NOT (push_bit (unat alarm) 1) \<noteq> 0)"

text \<open>The decoding of the alarm registers, from \<open>if (alarm == ALARM_1)\<close> on.\<close>

definition decode_alarm_msgBuf :: "u8 \<Rightarrow> u8 list \<Rightarrow> alarm_out \<Rightarrow> alarm_out" where
  "decode_alarm_msgBuf alarm msgBuf out0 =
     (if alarm = ALARM_1 then
        (let out = out0\<lparr>o_sec := bcd2dec (msgBuf ! 1 AND 0x7F)\<rparr>;
             out = out\<lparr>o_min := bcd2dec (msgBuf ! 2 AND 0x7F)\<rparr>;
             out = out\<lparr>o_hour := bcd2dec (msgBuf ! 3 AND 0x7F)\<rparr>;
             out = out\<lparr>o_day := bcd2dec (msgBuf ! 4
                                   AND (if msgBuf ! 4 AND 0x40 = 0 then 0x3F else 0x0F))\<rparr>
         in if msgBuf ! 4 AND 0x80 = 0
            then out\<lparr>o_mode := (if msgBuf ! 4 AND 0x40 = 0 then ALARM_MDAY_M
                                 else ALARM_WDAY_M)\<rparr>
            else if msgBuf ! 3 AND 0x80 = 0 then out\<lparr>o_mode := ALARM_HOUR_M\<rparr>
            else if msgBuf ! 2 AND 0x80 = 0 then out\<lparr>o_mode := ALARM_MIN_M\<rparr>
            else if msgBuf ! 1 AND 0x80 = 0 then out\<lparr>o_mode := ALARM_SEC_M\<rparr>
            else out\<lparr>o_mode := ALARM_SEC\<rparr>)
      else
        (let out = out0\<lparr>o_min := bcd2dec (msgBuf ! 1 AND 0x7F)\<rparr>;
             out = out\<lparr>o_hour := bcd2dec (msgBuf ! 2 AND 0x7F)\<rparr>;
             out = out\<lparr>o_day := bcd2dec (msgBuf ! 3
                                   AND (if msgBuf ! 3 AND 0x40 = 0 then 0x3F else 0x0F))\<rparr>
         in if msgBuf ! 3 AND 0x80 = 0
            then out\<lparr>o_mode := (if msgBuf ! 3 AND 0x40 = 0 then ALARM_MDAY_M
                                 else ALARM_WDAY_M)\<rparr>
            else if msgBuf ! 2 AND 0x80 = 0 then out\<lparr>o_mode := ALARM_HOUR_M\<rparr>
            else if msgBuf ! 1 AND 0x80 = 0 then out\<lparr>o_mode := ALARM_MIN_M\<rparr>
            else out\<lparr>o_mode := ALARM_MIN\<rparr>))"

definition ds3231_get_alarm_s ::
  "alarm_out \<Rightarrow> u8 \<Rightarrow> (nat \<Rightarrow> u8) \<Rightarrow> machine \<Rightarrow> fault + (u8 \<times> alarm_out \<times> machine)" where
  "ds3231_get_alarm_s out0 alarm junk s0 =
     (if alarm > 1 then Inr (false, out0, s0)
      else
        (let msgBuf = map junk [0..<(if alarm = ALARM_1 then 5 else 4)];
             msgBuf = msgBuf[0 := WRITE_ADD];
             msgBuf = msgBuf[1 := CTRDR]
         in case TWI_start_transceiver_with_data False msgBuf 2 s0 of
              Inl e \<Rightarrow> Inl e
            | Inr (r1, msgBuf, s1) \<Rightarrow>
                if r1 \<noteq> 0 then Inr (false, out0, s1)
                else
                  (case TWI_start_transceiver_with_data False (msgBuf[0 := READ_ADD]) 2 s1 of
                     Inl e \<Rightarrow> Inl e
                   | Inr (r2, msgBuf, s2) \<Rightarrow>
                       if r2 \<noteq> 0 then Inr (false, out0, s2)
                       else
                         (let out1 = out0\<lparr>o_intrpt := alarm_enabled_bit (msgBuf ! 1) alarm\<rparr>;
                              msgBuf = msgBuf[0 := WRITE_ADD];
                              msgBuf = msgBuf[1 := (if alarm = ALARM_1 then AL1DR else AL2DR)]
                          in case TWI_start_transceiver_with_data False msgBuf 2 s2 of
                               Inl e \<Rightarrow> Inl e
                             | Inr (r3, msgBuf, s3) \<Rightarrow>
                                 if r3 \<noteq> 0 then Inr (false, out1, s3)
                                 else
                                   (case TWI_start_transceiver_with_data False
                                           (msgBuf[0 := READ_ADD])
                                           (if alarm = ALARM_1 then 5 else 4) s3 of
                                      Inl e \<Rightarrow> Inl e
                                    | Inr (r4, msgBuf, s4) \<Rightarrow>
                                        if r4 \<noteq> 0 then Inr (false, out1, s4)
                                        else Inr (true, decode_alarm_msgBuf alarm msgBuf out1,
                                                  s4))))))"

subsection \<open>ds3231_check_alarm\<close>

text \<open>
  \<open>active\<close> is the caller's variable behind the output pointer. The code assigns
  \<open>msgBuf[0]\<close> twice and \<open>msgBuf[1]\<close> never, and makes one transfer.
\<close>

definition ds3231_check_alarm ::
  "bool \<Rightarrow> u8 \<Rightarrow> (nat \<Rightarrow> u8) \<Rightarrow> machine \<Rightarrow> fault + (u8 \<times> bool \<times> machine)" where
  "ds3231_check_alarm active alarm junk s0 =
     (if alarm > 1 then Inr (false, active, s0)
      else
        (let msgBuf = map junk [0..<2];
             msgBuf = msgBuf[0 := WRITE_ADD];
             msgBuf = msgBuf[0 := STSDR]
         in case TWI_start_transceiver_with_data False msgBuf 2 s0 of
              Inl e \<Rightarrow> Inl e
            | Inr (r, msgBuf, s1) \<Rightarrow>
                if r \<noteq> 0 then Inr (false, active, s1)
                else Inr (true, msgBuf ! 1 AND push_bit (unat alarm) 1 \<noteq> 0, s1)))"

section \<open>Machines to run the driver on\<close>

text \<open>
  The machine after \<open>TWI_master_initialize\<close>, both lines released, with nothing on the
  bus yet: the scripts of what the hardware presents are added per scenario. A byte
  takes eight rounds of the clock loop (the counter overflows after 16 edges), an
  acknowledgement bit one.
\<close>

definition time0 :: time where
  "time0 = \<lparr>t_sec = 0, t_min = 0, t_hour = 0, t_mday = 0, t_mon = 0, t_year = 0,
             t_wday = 0, t_am = False, t_twelveHour = 0\<rparr>"

definition idle :: machine where
  "idle = \<lparr>PORT_SDA = True, PORT_SCL = True, DDR_SDA = True, USIDR = 0xFF, USISR = 0xF0,
            USICR = 0x3A, TWI_state = 0, g_time = time0, pin_scl = [], usisr_in = [],
            usidr_in = [], bus_log = []\<rparr>"

text \<open>
  USISR during one call of the transceiver that gets as far as the acknowledgement of
  the address: no flag at the three noise tests, the start condition detected, eight
  rounds for the address byte and one for the acknowledgement bit.
\<close>

definition usisr_address :: "u8 list" where
  "usisr_address = [0, 0, 0, 0x80, 0, 0, 0, 0, 0, 0, 0, 0x40, 0x40]"

text \<open>USISR during a further byte and its acknowledgement bit.\<close>

definition usisr_byte :: "u8 list" where
  "usisr_byte = [0, 0, 0, 0, 0, 0, 0, 0x40, 0x40]"

text \<open>SCL is seen high at once, each of the \<open>n\<close> times the code waits for it.\<close>

definition scl_high :: "nat \<Rightarrow> bool list" where
  "scl_high n = replicate n True"

text \<open>
  A remote device that acknowledges its address and answers the first data byte with
  a 1 on the acknowledgement bit (USIDR reads back the byte on the bus, then the bit).
\<close>

definition nack_on_data :: machine where
  "nack_on_data = idle\<lparr>pin_scl := scl_high 19,
                       usisr_in := usisr_address @ usisr_byte,
                       usidr_in := [0xD0, 0xFE, 0x0E, 0xFF]\<rparr>"

text \<open>
  No device answers: in one call of the transceiver after the other, to the addresses
  \<open>as\<close>, the acknowledgement bit after the address stays high.
\<close>

definition no_answer :: "u8 list \<Rightarrow> machine" where
  "no_answer as = idle\<lparr>pin_scl := scl_high (10 * length as),
                       usisr_in := concat (map (\<lambda>a. usisr_address) as),
                       usidr_in := concat (map (\<lambda>a. [a, 0xFF]) as)\<rparr>"

text \<open>
  What the hardware presents when the clock chip acknowledges the write of the
  register pointer and then answers a read of eight bytes (the address and seven
  registers), each transfer closed by a stop condition that is seen on the bus.
\<close>

definition usisr_time_read :: "u8 list" where
  "usisr_time_read =
     usisr_address @ usisr_byte @ usisr_byte @ usisr_byte @ usisr_byte @ usisr_byte
       @ usisr_byte @ usisr_byte @ [0x20]"

text \<open>
  The chip holds 14:30:00 on Thursday the 20th of June 2024: seconds \<open>0x00\<close>, minutes
  \<open>0x30\<close>, hours \<open>0x14\<close>, day of the week \<open>0x03\<close>, date \<open>0x20\<close>, month with the century
  bit \<open>0x86\<close>, year \<open>0x24\<close>. After each byte read USIDR reads back the acknowledgement
  bit the master drove.
\<close>

definition usidr_time_read :: "u8 list" where
  "usidr_time_read =
     [0xD1, 0xFE, 0x00, 0x00, 0x30, 0x00, 0x14, 0x00, 0x03, 0x00, 0x20, 0x00, 0x86, 0x00,
      0x24, 0xFF]"

definition chip_answers_time :: machine where
  "chip_answers_time =
     idle\<lparr>pin_scl := scl_high 20 @ scl_high 74,
          usisr_in := (usisr_address @ usisr_byte @ [0x20]) @ usisr_time_read,
          usidr_in := [0xD0, 0xFE, 0x00, 0xFE] @ usidr_time_read\<rparr>"

text \<open>
  The chip acknowledges the write of the register pointer and would then answer a
  read of four bytes (the address and the seconds, minutes and hours registers: it
  holds 14:30:00).
\<close>

definition chip_answers_hms :: machine where
  "chip_answers_hms =
     idle\<lparr>pin_scl := scl_high 20 @ scl_high 38,
          usisr_in := (usisr_address @ usisr_byte @ [0x20])
                        @ (usisr_address @ usisr_byte @ usisr_byte @ usisr_byte @ [0x20]),
          usidr_in := [0xD0, 0xFE, 0x00, 0xFE]
                        @ [0xD1, 0xFE, 0x00, 0x00, 0x30, 0x00, 0x14, 0xFF]\<rparr>"

text \<open>
  The chip, its control register holding the power-on value \<open>0x1C\<close>, acknowledges the
  write of the register pointer and would then answer a read of the register and
  acknowledge the write of its new content.
\<close>

definition chip_answers_control :: machine where
  "chip_answers_control =
     idle\<lparr>pin_scl := scl_high 20 @ scl_high 20 @ scl_high 29,
          usisr_in := (usisr_address @ usisr_byte @ [0x20])
                        @ (usisr_address @ usisr_byte @ [0x20])
                        @ (usisr_address @ usisr_byte @ usisr_byte @ [0x20]),
          usidr_in := [0xD0, 0xFE, 0x0E, 0xFE] @ [0xD1, 0xFE, 0x1C, 0xFF]
                        @ [0xD0, 0xFE, 0x0E, 0xFE, 0x58, 0xFE]\<rparr>"

text \<open>
  The chip does not answer the first two calls of the transceiver (the acknowledgement
  bit after the address stays high) and acknowledges every byte of the third, a write
  of three bytes.
\<close>

definition chip_answers_third :: machine where
  "chip_answers_third =
     idle\<lparr>pin_scl := scl_high 10 @ scl_high 10 @ scl_high 29,
          usisr_in := usisr_address @ usisr_address
                        @ (usisr_address @ usisr_byte @ usisr_byte @ [0x20]),
          usidr_in := [0xD0, 0xFF] @ [0xD1, 0xFF] @ [0xD0, 0xFE, 0x0E, 0xFE, 0x4A, 0xFE]\<rparr>"

text \<open>The caller's variables before a call of \<open>ds3231_get_alarm_s\<close>.\<close>

definition out0 :: alarm_out where
  "out0 = \<lparr>o_day = 0, o_hour = 0, o_min = 0, o_sec = 0, o_mode = 0, o_intrpt = False\<rparr>"

section \<open>Binary coded decimal: the round trip\<close>

lemma unat_dec2bcd:
  "d \<le> 99 \<Longrightarrow> unat (dec2bcd d) = unat d div 10 * 16 + unat d mod 10"
  unfolding dec2bcd_def
  by (simp add: unat_word_ariths unat_div unat_mod word_le_nat_alt)

lemma unat_bcd2dec: "unat (bcd2dec b) = unat b div 16 * 10 + unat b mod 16"
proof -
  have "unat b < 256"
    using unsigned_less [of b, where 'a = nat] by simp
  then show ?thesis
    unfolding bcd2dec_def
    by (simp add: unat_word_ariths unat_div unat_mod)
qed

text \<open>
  Claim C9. For every decimal value \<open>d\<close> from 0 to 99, converting \<open>d\<close> to binary coded
  decimal with \<open>dec2bcd\<close> and back with \<open>bcd2dec\<close> gives \<open>d\<close> again.
\<close>

theorem bcd_round_trip: "d \<le> 99 \<Longrightarrow> bcd2dec (dec2bcd d) = d"
proof -
  assume le: "d \<le> 99"
  have "unat (bcd2dec (dec2bcd d)) = unat d"
    using le by (simp add: unat_bcd2dec unat_dec2bcd word_le_nat_alt)
  then show ?thesis
    by (simp add: word_unat_eq_iff)
qed

theorem bcd_round_trip_witness: "(59 :: u8) \<le> 99 \<and> bcd2dec (dec2bcd 59) = 59"
proof -
  have le: "(59 :: u8) \<le> 99" by simp
  show ?thesis using le bcd_round_trip [OF le] by simp
qed

section \<open>The transceiver: what a call can and cannot do\<close>

lemma wait_SCL_fault: "wait_SCL pins = Inl e \<Longrightarrow> e = Hang"
  by (induction pins) (auto split: if_splits)

lemma clock_loop_fault: "clock_loop srs pins = Inl e \<Longrightarrow> e = Hang"
  by (induction srs arbitrary: pins) (auto split: if_splits sum.splits dest: wait_SCL_fault)

lemma TWI_master_transfer_fault: "TWI_master_transfer temp s = Inl e \<Longrightarrow> e = Hang"
  by (auto simp: TWI_master_transfer_def Let_def split: sum.splits prod.splits
           dest: clock_loop_fault)

lemma TWI_master_stop_fault: "TWI_master_stop s = Inl e \<Longrightarrow> e = Hang"
  by (auto simp: TWI_master_stop_def Let_def split: sum.splits prod.splits if_splits
           dest: wait_SCL_fault)

lemma TWI_transfer_loop_fault:
  "TWI_transfer_loop msg i msgSize s = Inl e \<Longrightarrow> e \<noteq> NullDeref"
proof (induction msg i msgSize s rule: TWI_transfer_loop.induct)
  case (1 msg i msgSize s)
  show ?case
    using "1.prems" "1.IH"
    by (subst (asm) TWI_transfer_loop.simps)
       (auto split: if_splits sum.splits prod.splits
             dest: TWI_master_transfer_fault TWI_master_stop_fault)
qed

lemma TWI_begin_fault: "TWI_begin oob msg msgSize s = Inl e \<Longrightarrow> e \<noteq> NullDeref"
  by (auto simp: TWI_begin_def Let_def split: sum.splits prod.splits if_splits
           dest: wait_SCL_fault)

lemma TWI_start_transceiver_with_data_fault:
  "TWI_start_transceiver_with_data oob msg msgSize s = Inl e \<Longrightarrow> e \<noteq> NullDeref"
  by (auto simp: TWI_start_transceiver_with_data_def split: sum.splits prod.splits
           dest: TWI_begin_fault TWI_transfer_loop_fault)

lemma TWI_master_transfer_state:
  "TWI_master_transfer temp s = Inr (d, s') \<Longrightarrow> TWI_state s' = TWI_state s"
  by (auto simp: TWI_master_transfer_def read_USIDR_def Let_def
           split: sum.splits list.splits prod.splits)

lemma TWI_master_transfer_log:
  "TWI_master_transfer temp s = Inr (d, s') \<Longrightarrow>
   bus_log s' = bus_log s @ [Shift temp (USIDR s) d]"
  by (auto simp: TWI_master_transfer_def read_USIDR_def Let_def
           split: sum.splits list.splits prod.splits)

lemma TWI_master_transfer_USIDR:
  "TWI_master_transfer temp s = Inr (d, s') \<Longrightarrow> USIDR s' = 0xFF"
  by (auto simp: TWI_master_transfer_def read_USIDR_def Let_def
           split: sum.splits list.splits prod.splits)

lemma nack_bit: "(a AND push_bit TWI_NACK_BIT 1 \<noteq> 0) = bit a TWI_NACK_BIT" for a :: u8
  by (simp add: and_one_eq bit_0 mod_2_eq_odd)

lemma TWI_begin_addressMode:
  "TWI_begin oob msg msgSize s0 = Inr (Inr sb) \<Longrightarrow> addressMode sb"
  by (auto simp: TWI_begin_def Let_def read_USISR_def set_addressMode_def
                 set_masterWrite_def addressMode_def bit_simps
           split: if_splits sum.splits list.splits prod.splits)

text \<open>The loop is a tail call: from any round it reaches, the call has the same value.\<close>

lemma write_acked_loop:
  "write_acked msg c c' \<Longrightarrow>
   TWI_transfer_loop msg (fst c) (fst (snd c)) (snd (snd c)) =
   TWI_transfer_loop msg (fst c') (fst (snd c')) (snd (snd c'))"
proof (induction rule: write_acked.induct)
  case first_round
  show ?case by simp
next
  case (next_round i n s x s1 a s2)
  then show ?case
    by (simp add: TWI_transfer_loop.simps [of msg i n s])
qed

text \<open>\<open>addressMode\<close> is set in the first round only.\<close>

lemma write_acked_addressMode:
  "write_acked msg c c' \<Longrightarrow> fst c = 0 \<Longrightarrow> addressMode (snd (snd c)) \<Longrightarrow>
   addressMode (snd (snd c')) = (fst c' = 0)"
proof (induction rule: write_acked.induct)
  case first_round
  then show ?case by simp
next
  case (next_round i n s x s1 a s2)
  then show ?case
    by (simp add: set_addressMode_def addressMode_def bit_simps)
qed

text \<open>
  Claim C8. Whenever the remote device drives a 1 on the acknowledgement bit,
  \<open>TWI_start_transceiver_with_data\<close> returns failure at once: with the error
  address-not-acknowledged when it is the address byte (round 0, no data byte
  transferred), with data-not-acknowledged when it is a data byte (a later round, after
  the bytes before it were acknowledged). The machine it leaves is the one right after
  the acknowledgement bit was clocked, with the error recorded: the last two events on
  the bus are the byte and its acknowledgement bit, nothing is transferred after them
  and no stop condition is attempted.
\<close>

theorem TWI_nack_aborts:
  assumes beg: "TWI_begin oob msg msgSize s0 = Inr (Inr sb)"
      and acked: "write_acked msg (0, msgSize, sb) (i, n, s)"
      and len: "i < length msg"
      and wr: "addressMode s \<or> masterWrite s"
      and t8: "TWI_master_transfer tempUSISR_8bit (s\<lparr>PORT_SCL := False, USIDR := msg ! i\<rparr>)
                 = Inr (x, s1)"
      and t1: "TWI_master_transfer tempUSISR_1bit (s1\<lparr>DDR_SDA := False\<rparr>) = Inr (a, s2)"
      and nack: "bit a TWI_NACK_BIT"
  shows "TWI_start_transceiver_with_data oob msg msgSize s0 =
           Inr (false, msg,
                s2\<lparr>TWI_state := (if i = 0 then TWI_NO_ACK_ON_ADDRESS
                                  else TWI_NO_ACK_ON_DATA)\<rparr>)
         \<and> bus_log s2 =
             bus_log s @ [Shift tempUSISR_8bit (msg ! i) x, Shift tempUSISR_1bit 0xFF a]"
proof -
  have st: "TWI_state s2 = TWI_state s"
    using TWI_master_transfer_state [OF t1] TWI_master_transfer_state [OF t8] by simp
  have nk: "a AND 1 \<noteq> 0"
    using nack nack_bit [of a] by simp
  have am: "addressMode s2 = (i = 0)"
    using write_acked_addressMode [OF acked] TWI_begin_addressMode [OF beg] st
    by (simp add: addressMode_def)
  have "TWI_transfer_loop msg 0 msgSize sb = TWI_transfer_loop msg i n s"
    using write_acked_loop [OF acked] by simp
  also have "\<dots> = Inr (false, msg,
                s2\<lparr>TWI_state := (if i = 0 then TWI_NO_ACK_ON_ADDRESS
                                  else TWI_NO_ACK_ON_DATA)\<rparr>)"
    using len wr t8 t1 nk am
    by (simp add: TWI_transfer_loop.simps [of msg i n s])
  finally have res: "TWI_start_transceiver_with_data oob msg msgSize s0 =
           Inr (false, msg,
                s2\<lparr>TWI_state := (if i = 0 then TWI_NO_ACK_ON_ADDRESS
                                  else TWI_NO_ACK_ON_DATA)\<rparr>)"
    using beg by (simp add: TWI_start_transceiver_with_data_def)
  have "bus_log s2 =
          bus_log s @ [Shift tempUSISR_8bit (msg ! i) x, Shift tempUSISR_1bit 0xFF a]"
    using TWI_master_transfer_log [OF t1] TWI_master_transfer_log [OF t8]
      TWI_master_transfer_USIDR [OF t8] by simp
  with res show ?thesis by simp
qed

text \<open>
  The theorem at a write of the control register's address whose data byte is not
  acknowledged (round 0 is acknowledged, round 1 is not), and at the same write when
  no device acknowledges the address.
\<close>

theorem TWI_nack_aborts_witness:
  "bit (0xFF :: u8) TWI_NACK_BIT \<and>
   TWI_start_transceiver_with_data False [WRITE_ADD, CTRDR] 2 nack_on_data =
     Inr (false, [WRITE_ADD, CTRDR],
          idle\<lparr>PORT_SCL := False, USISR := 0xFE, TWI_state := TWI_NO_ACK_ON_DATA,
               bus_log := [StartCond, Shift 0xF0 0xD0 0xD0, Shift 0xFE 0xFF 0xFE,
                           Shift 0xF0 0x0E 0x0E, Shift 0xFE 0xFF 0xFF]\<rparr>) \<and>
   TWI_start_transceiver_with_data False [WRITE_ADD, CTRDR] 2 (no_answer [WRITE_ADD]) =
     Inr (false, [WRITE_ADD, CTRDR],
          idle\<lparr>PORT_SCL := False, USISR := 0xFE, TWI_state := TWI_NO_ACK_ON_ADDRESS,
               bus_log := [StartCond, Shift 0xF0 0xD0 0xD0, Shift 0xFE 0xFF 0xFF]\<rparr>)"
proof -
  let ?msg = "[WRITE_ADD, CTRDR]"
  let ?sb = "idle\<lparr>PORT_SCL := False, TWI_state := 3, pin_scl := scl_high 18,
      usisr_in := [0, 0, 0, 0, 0, 0, 0, 0x40, 0x40] @ usisr_byte,
      usidr_in := [0xD0, 0xFE, 0x0E, 0xFF], bus_log := [StartCond]\<rparr>"
  let ?a1 = "idle\<lparr>PORT_SCL := False, TWI_state := 3, pin_scl := scl_high 10,
      usisr_in := 0x40 # usisr_byte, usidr_in := [0xFE, 0x0E, 0xFF],
      bus_log := [StartCond, Shift 0xF0 0xD0 0xD0]\<rparr>"
  let ?a2 = "idle\<lparr>PORT_SCL := False, USISR := 0xFE, TWI_state := 3, pin_scl := scl_high 9,
      usisr_in := usisr_byte, usidr_in := [0x0E, 0xFF],
      bus_log := [StartCond, Shift 0xF0 0xD0 0xD0, Shift 0xFE 0xFF 0xFE]\<rparr>"
  let ?s = "?a2\<lparr>TWI_state := 2\<rparr>"
  let ?s1 = "idle\<lparr>PORT_SCL := False, TWI_state := 2, pin_scl := scl_high 1,
      usisr_in := [0x40], usidr_in := [0xFF],
      bus_log := [StartCond, Shift 0xF0 0xD0 0xD0, Shift 0xFE 0xFF 0xFE,
                  Shift 0xF0 0x0E 0x0E]\<rparr>"
  let ?s2 = "idle\<lparr>PORT_SCL := False, USISR := 0xFE, TWI_state := 2,
      bus_log := [StartCond, Shift 0xF0 0xD0 0xD0, Shift 0xFE 0xFF 0xFE,
                  Shift 0xF0 0x0E 0x0E, Shift 0xFE 0xFF 0xFF]\<rparr>"
  have beg: "TWI_begin False ?msg 2 nack_on_data = Inr (Inr ?sb)"
    by code_simp
  have r0: "write_acked ?msg (0, 2, ?sb) (0, 2, ?sb)"
    by (rule write_acked.first_round)
  have "write_acked ?msg (0, 2, ?sb) (0 + 1, 2 - 1, set_addressMode False ?a2)"
  proof (rule write_acked.next_round [OF r0])
    show "0 < length ?msg" by simp
    show "addressMode ?sb \<or> masterWrite ?sb" by code_simp
    show "TWI_master_transfer tempUSISR_8bit (?sb\<lparr>PORT_SCL := False, USIDR := ?msg ! 0\<rparr>)
            = Inr (0xD0, ?a1)"
      by code_simp
    show "TWI_master_transfer tempUSISR_1bit (?a1\<lparr>DDR_SDA := False\<rparr>) = Inr (0xFE, ?a2)"
      by code_simp
    show "(0xFE :: u8) AND push_bit TWI_NACK_BIT 1 = 0" by code_simp
    show "(2 :: u8) - 1 \<noteq> 0" by simp
  qed
  moreover have "set_addressMode False ?a2 = ?s" by code_simp
  ultimately have acked: "write_acked ?msg (0, 2, ?sb) (1, 1, ?s)" by simp
  have len: "1 < length ?msg" by simp
  have wr: "addressMode ?s \<or> masterWrite ?s" by code_simp
  have t8: "TWI_master_transfer tempUSISR_8bit (?s\<lparr>PORT_SCL := False, USIDR := ?msg ! 1\<rparr>)
              = Inr (0x0E, ?s1)"
    by code_simp
  have t1: "TWI_master_transfer tempUSISR_1bit (?s1\<lparr>DDR_SDA := False\<rparr>) = Inr (0xFF, ?s2)"
    by code_simp
  have nack: "bit (0xFF :: u8) TWI_NACK_BIT" by simp
  have "?s2\<lparr>TWI_state := TWI_NO_ACK_ON_DATA\<rparr> =
        idle\<lparr>PORT_SCL := False, USISR := 0xFE, TWI_state := TWI_NO_ACK_ON_DATA,
               bus_log := [StartCond, Shift 0xF0 0xD0 0xD0, Shift 0xFE 0xFF 0xFE,
                           Shift 0xF0 0x0E 0x0E, Shift 0xFE 0xFF 0xFF]\<rparr>"
    by simp
  then have data: "TWI_start_transceiver_with_data False ?msg 2 nack_on_data =
     Inr (false, ?msg,
          idle\<lparr>PORT_SCL := False, USISR := 0xFE, TWI_state := TWI_NO_ACK_ON_DATA,
               bus_log := [StartCond, Shift 0xF0 0xD0 0xD0, Shift 0xFE 0xFF 0xFE,
                           Shift 0xF0 0x0E 0x0E, Shift 0xFE 0xFF 0xFF]\<rparr>)"
    using TWI_nack_aborts [OF beg acked len wr t8 t1 nack] by simp
  let ?b0 = "idle\<lparr>PORT_SCL := False, TWI_state := 3, pin_scl := scl_high 9,
      usisr_in := usisr_byte, usidr_in := [0xD0, 0xFF], bus_log := [StartCond]\<rparr>"
  let ?b1 = "idle\<lparr>PORT_SCL := False, TWI_state := 3, pin_scl := scl_high 1,
      usisr_in := [0x40], usidr_in := [0xFF],
      bus_log := [StartCond, Shift 0xF0 0xD0 0xD0]\<rparr>"
  let ?b2 = "idle\<lparr>PORT_SCL := False, USISR := 0xFE, TWI_state := 3,
      bus_log := [StartCond, Shift 0xF0 0xD0 0xD0, Shift 0xFE 0xFF 0xFF]\<rparr>"
  have beg0: "TWI_begin False ?msg 2 (no_answer [WRITE_ADD]) = Inr (Inr ?b0)"
    by code_simp
  have acked0: "write_acked ?msg (0, 2, ?b0) (0, 2, ?b0)"
    by (rule write_acked.first_round)
  have len0: "0 < length ?msg" by simp
  have wr0: "addressMode ?b0 \<or> masterWrite ?b0" by code_simp
  have t80: "TWI_master_transfer tempUSISR_8bit (?b0\<lparr>PORT_SCL := False, USIDR := ?msg ! 0\<rparr>)
               = Inr (0xD0, ?b1)"
    by code_simp
  have t10: "TWI_master_transfer tempUSISR_1bit (?b1\<lparr>DDR_SDA := False\<rparr>) = Inr (0xFF, ?b2)"
    by code_simp
  have "?b2\<lparr>TWI_state := TWI_NO_ACK_ON_ADDRESS\<rparr> =
        idle\<lparr>PORT_SCL := False, USISR := 0xFE, TWI_state := TWI_NO_ACK_ON_ADDRESS,
               bus_log := [StartCond, Shift 0xF0 0xD0 0xD0, Shift 0xFE 0xFF 0xFF]\<rparr>"
    by simp
  then have addr: "TWI_start_transceiver_with_data False ?msg 2 (no_answer [WRITE_ADD]) =
     Inr (false, ?msg,
          idle\<lparr>PORT_SCL := False, USISR := 0xFE, TWI_state := TWI_NO_ACK_ON_ADDRESS,
               bus_log := [StartCond, Shift 0xF0 0xD0 0xD0, Shift 0xFE 0xFF 0xFF]\<rparr>)"
    using TWI_nack_aborts [OF beg0 acked0 len0 wr0 t80 t10 nack] by simp
  from nack data addr show ?thesis by simp
qed

text \<open>
  A call of the transceiver that returns 0 has not changed the buffer: 0 is returned
  before the loop or on a missing acknowledgement in a round that writes, and a round
  that reads is never followed by one that writes.
\<close>

text \<open>A read that got past the address returns true.\<close>

lemma TWI_transfer_loop_read_true:
  "\<not> addressMode s \<Longrightarrow> \<not> masterWrite s \<Longrightarrow>
   TWI_transfer_loop msg i msgSize s = Inr (r, msg', s') \<Longrightarrow> r = true"
proof (induction msg i msgSize s rule: TWI_transfer_loop.induct)
  case (1 msg i msgSize s)
  have keep: "\<not> addressMode s2 \<and> \<not> masterWrite s2"
    if "TWI_master_transfer tempUSISR_8bit (s\<lparr>DDR_SDA := False\<rparr>) = Inr (x, s1)"
       "TWI_master_transfer tempUSISR_1bit (s1\<lparr>USIDR := v\<rparr>) = Inr (a, s2)"
    for x s1 a s2 v
    using that "1.prems"(1,2) TWI_master_transfer_state [OF that(1)]
      TWI_master_transfer_state [OF that(2)]
    by (simp add: addressMode_def masterWrite_def)
  note unf = "1.prems"(3) [unfolded TWI_transfer_loop.simps [of msg i msgSize s]]
  show ?case
    using unf "1.prems"(1,2) "1.IH"(2) keep
    by (auto split: if_splits sum.splits prod.splits)
qed

lemma TWI_transfer_loop_false_keeps:
  "TWI_transfer_loop msg i msgSize s = Inr (r, msg', s') \<Longrightarrow> r = false \<Longrightarrow> msg' = msg"
proof (induction msg i msgSize s rule: TWI_transfer_loop.induct)
  case (1 msg i msgSize s)
  show ?case
  proof (cases "addressMode s \<or> masterWrite s")
    case True
    note unf = "1.prems"(1) [unfolded TWI_transfer_loop.simps [of msg i msgSize s]]
    from True show ?thesis
      using unf "1.prems"(2) "1.IH"(1)
      by (auto split: if_splits sum.splits prod.splits)
  next
    case False
    then have "r = true"
      using TWI_transfer_loop_read_true [of s msg i msgSize r msg' s'] "1.prems"(1) by simp
    with "1.prems"(2) show ?thesis by simp
  qed
qed

lemma failed_transfer_keeps_buffer:
  "TWI_start_transceiver_with_data oob msg msgSize s = Inr (0, msg', s') \<Longrightarrow> msg' = msg"
  by (auto simp: TWI_start_transceiver_with_data_def split: sum.splits prod.splits
           dest: TWI_transfer_loop_false_keeps)

section \<open>The alarm registers\<close>

lemma small_bit: "unat w < 2 ^ n \<Longrightarrow> n \<le> m \<Longrightarrow> \<not> bit w m" for w :: u8
proof -
  assume lt: "unat w < 2 ^ n" and le: "n \<le> m"
  have "(2 :: nat) ^ n \<le> 2 ^ m" using le by simp
  with lt have "unat w < 2 ^ m" by (rule order.strict_trans2)
  then have "unat w div 2 ^ m = 0" by (rule div_less)
  then have "\<not> bit (unat w) m" by (simp add: bit_iff_odd)
  then show ?thesis by (simp add: bit_unsigned_iff)
qed

lemma dec2bcd_59: "d \<le> 59 \<Longrightarrow> \<not> bit (dec2bcd d) 7"
proof -
  assume a: "d \<le> 59"
  then have "d \<le> 99" by (simp add: word_le_nat_alt)
  from unat_dec2bcd [OF this] a have "unat (dec2bcd d) < 2 ^ 7"
    by (simp add: word_le_nat_alt) 
  then show ?thesis by (rule small_bit) simp
qed

lemma dec2bcd_31: "d \<le> 31 \<Longrightarrow> \<not> bit (dec2bcd d) 7 \<and> \<not> bit (dec2bcd d) 6"
proof -
  assume a: "d \<le> 31"
  then have "d \<le> 99" by (simp add: word_le_nat_alt)
  from unat_dec2bcd [OF this] a have "unat (dec2bcd d) < 2 ^ 6"
    by (simp add: word_le_nat_alt) 
  then show ?thesis using small_bit [of "dec2bcd d" 6 6] small_bit [of "dec2bcd d" 6 7] by simp
qed

text \<open>
  Claim C6, as amended. For a mode from \<open>ALARM_SEC\<close> to \<open>ALARM_WDAY_M\<close> (for alarm 2
  from \<open>ALARM_MIN_M\<close>), values that pass the parameter tests and a day of at most 31,
  \<open>ds3231_set_alarm_s\<close> sets the mask bit (bit 7) in exactly the alarm registers coarser
  than what the mode matches, the registers the alarm is to ignore: the seconds
  register for \<open>ALARM_SEC\<close> only, the minutes up to \<open>ALARM_SEC_M\<close>, the hours up to
  \<open>ALARM_MIN_M\<close>, the day up to \<open>ALARM_HOUR_M\<close>. So \<open>ALARM_HOUR_M\<close> for alarm 1 sets the
  mask bit of the day register only and leaves those of the hour, minute and second
  registers clear. The day-type flag (bit 6 of the day register) is set for weekday mode
  only.
\<close>

theorem set_alarm_mask_bits:
  assumes ok: "\<not> set_alarm_rejects day hour minute sec alarm mode"
      and day: "day \<le> 31"
      and mode: "mode \<le> ALARM_WDAY_M"
  shows "(alarm = ALARM_1 \<longrightarrow> length msgBuf = 6 \<longrightarrow>
           (let b = alarm_time_msgBuf day hour minute sec alarm mode msgBuf in
            bit (b ! 2) 7 = (mode = ALARM_SEC) \<and>
            bit (b ! 3) 7 = (mode \<le> ALARM_SEC_M) \<and>
            bit (b ! 4) 7 = (mode \<le> ALARM_MIN_M) \<and>
            bit (b ! 5) 7 = (mode \<le> ALARM_HOUR_M) \<and>
            bit (b ! 5) 6 = (mode = ALARM_WDAY_M)))
       \<and> (alarm = ALARM_2 \<longrightarrow> ALARM_MIN_M \<le> mode \<longrightarrow> length msgBuf = 5 \<longrightarrow>
           (let b = alarm_time_msgBuf day hour minute sec alarm mode msgBuf in
            \<not> bit (b ! 2) 7 \<and>
            bit (b ! 3) 7 = (mode \<le> ALARM_MIN_M) \<and>
            bit (b ! 4) 7 = (mode \<le> ALARM_HOUR_M) \<and>
            bit (b ! 4) 6 = (mode = ALARM_WDAY_M)))"
proof -
  from ok have h: "hour \<le> 23" and m: "minute \<le> 59" and s: "sec \<le> 59"
    by (auto simp: set_alarm_rejects_def split: if_splits)
  have hb: "\<not> bit (dec2bcd hour) 7"
    using h dec2bcd_31 [of hour] by (simp add: word_le_nat_alt)
  have mb: "\<not> bit (dec2bcd minute) 7" using m by (rule dec2bcd_59)
  have sb: "\<not> bit (dec2bcd sec) 7" using s by (rule dec2bcd_59)
  have db: "\<not> bit (dec2bcd day) 7" "\<not> bit (dec2bcd day) 6"
    using dec2bcd_31 [OF day] by simp_all
  have nm: "mode \<noteq> ALARM_MIN" using mode by auto
  show ?thesis
    using hb mb sb db nm
    by (auto simp: alarm_time_msgBuf_def Let_def bit_or_iff)
qed

text \<open>
  The claim as stated fails at its own example: for \<open>ALARM_HOUR_M\<close> on alarm 1 the mask
  bits of the second and minute registers are clear, and the one set is the day's.
\<close>

theorem set_alarm_mask_bits_counterexample:
  "\<not> bit (alarm_time_msgBuf 5 9 0 0 ALARM_1 ALARM_HOUR_M [0, 0, 0, 0, 0, 0] ! 2) 7
   \<and> \<not> bit (alarm_time_msgBuf 5 9 0 0 ALARM_1 ALARM_HOUR_M [0, 0, 0, 0, 0, 0] ! 3) 7
   \<and> \<not> bit (alarm_time_msgBuf 5 9 0 0 ALARM_1 ALARM_HOUR_M [0, 0, 0, 0, 0, 0] ! 4) 7
   \<and> bit (alarm_time_msgBuf 5 9 0 0 ALARM_1 ALARM_HOUR_M [0, 0, 0, 0, 0, 0] ! 5) 7"
  by (simp add: alarm_time_msgBuf_def dec2bcd_def Let_def word_le_nat_alt)

text \<open>The theorem at \<open>ALARM_HOUR_M\<close> on alarm 1 and at \<open>ALARM_WDAY_M\<close> on alarm 2.\<close>

theorem set_alarm_mask_bits_witness:
  "\<not> bit (alarm_time_msgBuf 5 9 0 0 ALARM_1 ALARM_HOUR_M [0, 0, 0, 0, 0, 0] ! 2) 7
   \<and> \<not> bit (alarm_time_msgBuf 5 9 0 0 ALARM_1 ALARM_HOUR_M [0, 0, 0, 0, 0, 0] ! 3) 7
   \<and> \<not> bit (alarm_time_msgBuf 5 9 0 0 ALARM_1 ALARM_HOUR_M [0, 0, 0, 0, 0, 0] ! 4) 7
   \<and> bit (alarm_time_msgBuf 5 9 0 0 ALARM_1 ALARM_HOUR_M [0, 0, 0, 0, 0, 0] ! 5) 7
   \<and> \<not> bit (alarm_time_msgBuf 5 9 0 0 ALARM_1 ALARM_HOUR_M [0, 0, 0, 0, 0, 0] ! 5) 6
   \<and> \<not> bit (alarm_time_msgBuf 5 9 0 0 ALARM_2 ALARM_WDAY_M [0, 0, 0, 0, 0] ! 2) 7
   \<and> \<not> bit (alarm_time_msgBuf 5 9 0 0 ALARM_2 ALARM_WDAY_M [0, 0, 0, 0, 0] ! 3) 7
   \<and> \<not> bit (alarm_time_msgBuf 5 9 0 0 ALARM_2 ALARM_WDAY_M [0, 0, 0, 0, 0] ! 4) 7
   \<and> bit (alarm_time_msgBuf 5 9 0 0 ALARM_2 ALARM_WDAY_M [0, 0, 0, 0, 0] ! 4) 6"
proof -
  have ok1: "\<not> set_alarm_rejects 5 9 0 0 ALARM_1 ALARM_HOUR_M"
    by (simp add: set_alarm_rejects_def word_less_nat_alt)
  have ok2: "\<not> set_alarm_rejects 5 9 0 0 ALARM_2 ALARM_WDAY_M"
    by (simp add: set_alarm_rejects_def word_less_nat_alt)
  have day: "(5 :: u8) \<le> 31" by simp
  have m1: "ALARM_HOUR_M \<le> ALARM_WDAY_M" by (simp add: word_le_nat_alt)
  have m2: "ALARM_WDAY_M \<le> ALARM_WDAY_M" by simp
  have m3: "ALARM_MIN_M \<le> ALARM_WDAY_M" by (simp add: word_le_nat_alt)
  have l1: "length [0, 0, 0, 0, 0, 0 :: u8] = 6" by simp
  have l2: "length [0, 0, 0, 0, 0 :: u8] = 5" by simp
  show ?thesis
    using set_alarm_mask_bits [OF ok1 day m1, of "[0, 0, 0, 0, 0, 0]"]
      set_alarm_mask_bits [OF ok2 day m2, of "[0, 0, 0, 0, 0]"] m3 l1 l2
    by (simp add: Let_def word_le_nat_alt)
qed

text \<open>
  Claim C3, as amended. The chip stores the bytes written after the register pointer
  and returns them after the address byte of a read, so the buffer
  \<open>ds3231_get_alarm_s\<close> decodes is \<open>READ_ADD\<close> followed by the bytes \<open>ds3231_set_alarm_s\<close>
  wrote from index 2 on. For day 15, hour 6, minute 30, second 0 and each of the modes
  \<open>ALARM_SEC\<close>, \<open>ALARM_SEC_M\<close>, \<open>ALARM_MIN_M\<close>, \<open>ALARM_HOUR_M\<close> and \<open>ALARM_MDAY_M\<close> on
  alarm 1, and \<open>ALARM_MIN_M\<close>, \<open>ALARM_HOUR_M\<close> and \<open>ALARM_MDAY_M\<close> on alarm 2, the values
  pass the parameter tests and decoding what was encoded gives the same mode and
  fields (alarm 2 leaves the caller's seconds alone). In weekday mode the day 15 is
  refused by the parameter test (a weekday is at most 7): the call returns false and
  leaves the machine as it was.
\<close>

theorem alarm_round_trip:
  "decode_alarm_msgBuf ALARM_1
     (READ_ADD # drop 2 (alarm_time_msgBuf 15 6 30 0 ALARM_1 ALARM_SEC [j0, j1, j2, j3, j4, j5])) out
     = out\<lparr>o_sec := 0, o_min := 30, o_hour := 6, o_day := 15, o_mode := ALARM_SEC\<rparr>
   \<and> decode_alarm_msgBuf ALARM_1
     (READ_ADD # drop 2 (alarm_time_msgBuf 15 6 30 0 ALARM_1 ALARM_SEC_M [j0, j1, j2, j3, j4, j5])) out
     = out\<lparr>o_sec := 0, o_min := 30, o_hour := 6, o_day := 15, o_mode := ALARM_SEC_M\<rparr>
   \<and> decode_alarm_msgBuf ALARM_1
     (READ_ADD # drop 2 (alarm_time_msgBuf 15 6 30 0 ALARM_1 ALARM_MIN_M [j0, j1, j2, j3, j4, j5])) out
     = out\<lparr>o_sec := 0, o_min := 30, o_hour := 6, o_day := 15, o_mode := ALARM_MIN_M\<rparr>
   \<and> decode_alarm_msgBuf ALARM_1
     (READ_ADD # drop 2 (alarm_time_msgBuf 15 6 30 0 ALARM_1 ALARM_HOUR_M [j0, j1, j2, j3, j4, j5])) out
     = out\<lparr>o_sec := 0, o_min := 30, o_hour := 6, o_day := 15, o_mode := ALARM_HOUR_M\<rparr>
   \<and> decode_alarm_msgBuf ALARM_1
     (READ_ADD # drop 2 (alarm_time_msgBuf 15 6 30 0 ALARM_1 ALARM_MDAY_M [j0, j1, j2, j3, j4, j5])) out
     = out\<lparr>o_sec := 0, o_min := 30, o_hour := 6, o_day := 15, o_mode := ALARM_MDAY_M\<rparr>
   \<and> decode_alarm_msgBuf ALARM_2
     (READ_ADD # drop 2 (alarm_time_msgBuf 15 6 30 0 ALARM_2 ALARM_MIN_M [j0, j1, j2, j3, j4])) out
     = out\<lparr>o_min := 30, o_hour := 6, o_day := 15, o_mode := ALARM_MIN_M\<rparr>
   \<and> decode_alarm_msgBuf ALARM_2
     (READ_ADD # drop 2 (alarm_time_msgBuf 15 6 30 0 ALARM_2 ALARM_HOUR_M [j0, j1, j2, j3, j4])) out
     = out\<lparr>o_min := 30, o_hour := 6, o_day := 15, o_mode := ALARM_HOUR_M\<rparr>
   \<and> decode_alarm_msgBuf ALARM_2
     (READ_ADD # drop 2 (alarm_time_msgBuf 15 6 30 0 ALARM_2 ALARM_MDAY_M [j0, j1, j2, j3, j4])) out
     = out\<lparr>o_min := 30, o_hour := 6, o_day := 15, o_mode := ALARM_MDAY_M\<rparr>
   \<and> \<not> set_alarm_rejects 15 6 30 0 ALARM_1 ALARM_SEC
   \<and> \<not> set_alarm_rejects 15 6 30 0 ALARM_1 ALARM_SEC_M
   \<and> \<not> set_alarm_rejects 15 6 30 0 ALARM_1 ALARM_MIN_M
   \<and> \<not> set_alarm_rejects 15 6 30 0 ALARM_1 ALARM_HOUR_M
   \<and> \<not> set_alarm_rejects 15 6 30 0 ALARM_1 ALARM_MDAY_M
   \<and> \<not> set_alarm_rejects 15 6 30 0 ALARM_2 ALARM_MIN_M
   \<and> \<not> set_alarm_rejects 15 6 30 0 ALARM_2 ALARM_HOUR_M
   \<and> \<not> set_alarm_rejects 15 6 30 0 ALARM_2 ALARM_MDAY_M
   \<and> ds3231_set_alarm_s 15 6 30 0 alarm ALARM_WDAY_M intrpt junk s0 = Inr (false, s0)"
  by (simp add: decode_alarm_msgBuf_def alarm_time_msgBuf_def set_alarm_rejects_def
        ds3231_set_alarm_s_def dec2bcd_def bcd2dec_def Let_def word_le_nat_alt word_less_nat_alt)

text \<open>
  The claim as stated fails for weekday mode: \<open>ds3231_set_alarm_s\<close> refuses day 15
  without touching the bus, and the decoder keeps only the low four bits of a weekday,
  so even the encoded bytes would come back as day 5.
\<close>

theorem alarm_round_trip_counterexample:
  "ds3231_set_alarm_s 15 6 30 0 ALARM_1 ALARM_WDAY_M True (\<lambda>k. 0) idle = Inr (false, idle)
   \<and> bus_log idle = []
   \<and> decode_alarm_msgBuf ALARM_1
        (READ_ADD # drop 2 (alarm_time_msgBuf 15 6 30 0 ALARM_1 ALARM_WDAY_M [0, 0, 0, 0, 0, 0])) out0
      \<noteq> out0\<lparr>o_sec := 0, o_min := 30, o_hour := 6, o_day := 15, o_mode := ALARM_WDAY_M\<rparr>"
  by (simp add: decode_alarm_msgBuf_def alarm_time_msgBuf_def set_alarm_rejects_def
        ds3231_set_alarm_s_def dec2bcd_def bcd2dec_def Let_def idle_def out0_def
        word_le_nat_alt word_less_nat_alt)

section \<open>Where the code departs from its documentation\<close>

text \<open>
  A call of \<open>ds3231_get_time\<close> that returns true hands out nothing the chip sent:
  the buffer it decodes holds the read address, the register address and what the stack
  held.
\<close>

lemma update_stored_time_overwrites:
  "update_stored_time msgBuf t0 = update_stored_time msgBuf t1"
  by (simp add: update_stored_time_def Let_def)

lemma get_time_true_is_junk:
  assumes run: "ds3231_get_time time_arg junk s0 = Inr (r, t, s')" and r: "r \<noteq> false"
  shows "t = update_stored_time
               [READ_ADD, SECDR, junk 2, junk 3, junk 4, junk 5, junk 6, junk 7] time_arg
         \<and> g_time s' = t"
proof -
  have buf: "(map junk [0..<8])[0 := WRITE_ADD, 1 := SECDR] =
        [WRITE_ADD, SECDR, junk 2, junk 3, junk 4, junk 5, junk 6, junk 7]"
    by (simp add: upt_rec eval_nat_numeral)
  show ?thesis
    using run r unfolding ds3231_get_time_def Let_def buf
    by (auto split: sum.splits prod.splits if_splits
             dest!: failed_transfer_keeps_buffer
             intro: update_stored_time_overwrites)
qed

text \<open>
  Claim C1 (the code fails it). twi.h documents that the transceiver returns 1 when the
  transmission completed and 0 otherwise, and ds3231.c tests it with
  \<open>if (TWI_start_transceiver_with_data(...))\<close> under the comment
  \<open>// Handle transmission error\<close>. On a bus where the chip acknowledges the pointer
  write and would answer the read, the first transfer returns true and
  \<open>ds3231_get_time\<close> returns false at once: \<open>_time\<close> and the caller's struct are
  unchanged and the read is never started (its samples are still unread). On a bus
  where nothing answers, both transfers return false with address-not-acknowledged and
  \<open>ds3231_get_time\<close> returns true, with \<open>_time\<close> decoded from the register address and
  what the stack held.
\<close>

theorem get_time_return_inverted:
  "TWI_start_transceiver_with_data False
     ((map (\<lambda>k. 0x25) [0..<8])[0 := WRITE_ADD, 1 := SECDR]) 2 chip_answers_time =
     Inr (true, [WRITE_ADD, SECDR, 0x25, 0x25, 0x25, 0x25, 0x25, 0x25],
          idle\<lparr>USISR := 0xFE, TWI_state := 2, pin_scl := scl_high 74,
               usisr_in := usisr_time_read, usidr_in := usidr_time_read,
               bus_log := [StartCond, Shift 0xF0 0xD0 0xD0, Shift 0xFE 0xFF 0xFE,
                           Shift 0xF0 0x00 0x00, Shift 0xFE 0xFF 0xFE, StopCond]\<rparr>)
   \<and> ds3231_get_time time0 (\<lambda>k. 0x25) chip_answers_time =
     Inr (false, time0,
          idle\<lparr>USISR := 0xFE, TWI_state := 2, pin_scl := scl_high 74,
               usisr_in := usisr_time_read, usidr_in := usidr_time_read,
               bus_log := [StartCond, Shift 0xF0 0xD0 0xD0, Shift 0xFE 0xFF 0xFE,
                           Shift 0xF0 0x00 0x00, Shift 0xFE 0xFF 0xFE, StopCond]\<rparr>)
   \<and> ds3231_get_time time0 (\<lambda>k. 0x25) (no_answer [WRITE_ADD, READ_ADD]) =
     Inr (true,
          \<lparr>t_sec = 0, t_min = 25, t_hour = 25, t_mday = 25, t_mon = 25, t_year = 133,
             t_wday = 25, t_am = False, t_twelveHour = 13\<rparr>,
          idle\<lparr>PORT_SCL := False, USISR := 0xFE, TWI_state := TWI_NO_ACK_ON_ADDRESS,
               g_time := \<lparr>t_sec = 0, t_min = 25, t_hour = 25, t_mday = 25, t_mon = 25,
                           t_year = 133, t_wday = 25, t_am = False, t_twelveHour = 13\<rparr>,
               bus_log := [StartCond, Shift 0xF0 0xD0 0xD0, Shift 0xFE 0xFF 0xFF,
                           StartCond, Shift 0xF0 0xD1 0xD1, Shift 0xFE 0xFF 0xFF]\<rparr>)"
  by code_simp

text \<open>
  Claim C2 (the code fails it). \<open>struct time\<close> documents \<open>year\<close> as 1900 to 2099 and
  declares it \<open>uint8_t\<close>, so \<open>time_->year > 2000\<close> is never true: the month byte
  \<open>ds3231_set_time\<close> sends is the month alone, for every struct, and the century bit is
  never set. Assigning 2024 to the field stores 232; the month byte for June is then
  \<open>0x06\<close>, century bit clear.
\<close>

theorem set_time_century_clear:
  "snd (set_time_msgBuf t junk) ! 7 = dec2bcd (t_mon t)
   \<and> snd (set_time_msgBuf (time0\<lparr>t_min := 30, t_hour := 14, t_wday := 3, t_mday := 20,
                                 t_mon := 6, t_year := word_of_nat 2024\<rparr>) junk) ! 7 = 0x06
   \<and> \<not> bit (0x06 :: u8) 7"
proof -
  have "unat (t_year t) < 256"
    using unsigned_less [of "t_year t", where 'a = nat] by simp
  then have "\<not> unat (t_year t) > 2000" by simp
  then show ?thesis
    by (simp add: set_time_msgBuf_def Let_def time0_def dec2bcd_def)
qed

text \<open>
  Claim C4 (the code fails it). \<open>*intrpt = (msgBuf[1] & ~(1 << alarm))\<close> masks the
  selected alarm's bit out instead of testing it: with only A1IE set alarm 1 is
  reported disabled, with only INTCN set it is reported enabled, and likewise for
  alarm 2.
\<close>

theorem alarm_enabled_bit_inverted:
  "alarm_enabled_bit 0x01 ALARM_1 = False \<and> alarm_enabled_bit 0x04 ALARM_1 = True
   \<and> alarm_enabled_bit 0x02 ALARM_2 = False \<and> alarm_enabled_bit 0x01 ALARM_2 = True"
  by (simp add: alarm_enabled_bit_def)

text \<open>Whenever \<open>ds3231_check_alarm\<close> returns true, its flag is a bit of the stack.\<close>

lemma check_alarm_true_is_junk:
  assumes run: "ds3231_check_alarm active alarm junk s0 = Inr (r, a, s')" and r: "r \<noteq> false"
  shows "a = (junk 1 AND push_bit (unat alarm) 1 \<noteq> 0)"
proof -
  have buf: "(map junk [0..<2])[0 := WRITE_ADD, 0 := STSDR] = [STSDR, junk 1]"
    by (simp add: upt_rec eval_nat_numeral)
  show ?thesis
    using run r unfolding ds3231_check_alarm_def Let_def buf
    by (auto split: sum.splits prod.splits if_splits
             dest!: failed_transfer_keeps_buffer)
qed

text \<open>
  Claim C5 (the code fails it). \<open>ds3231_check_alarm\<close> overwrites \<open>msgBuf[0]\<close> with the
  register address \<open>0x0F\<close>, never sets \<open>msgBuf[1]\<close> and never reads: the one transfer it
  makes puts \<open>0x0F\<close> on the bus as the address byte. With only the clock chip on the
  bus nothing acknowledges it, the call returns true, and the flag it reports is bit 0
  of what the stack held: false for \<open>0x00\<close>, true for \<open>0xFF\<close>, whatever the status
  register holds.
\<close>

theorem check_alarm_wrong_address:
  "ds3231_check_alarm True ALARM_1 (\<lambda>k. 0x00) (no_answer [STSDR]) =
     Inr (true, False,
          idle\<lparr>PORT_SCL := False, USISR := 0xFE, TWI_state := TWI_NO_ACK_ON_ADDRESS,
               bus_log := [StartCond, Shift 0xF0 0x0F 0x0F, Shift 0xFE 0xFF 0xFF]\<rparr>)
   \<and> ds3231_check_alarm False ALARM_1 (\<lambda>k. 0xFF) (no_answer [STSDR]) =
     Inr (true, True,
          idle\<lparr>PORT_SCL := False, USISR := 0xFE, TWI_state := TWI_NO_ACK_ON_ADDRESS,
               bus_log := [StartCond, Shift 0xF0 0x0F 0x0F, Shift 0xFE 0xFF 0xFF]\<rparr>)"
  by code_simp

text \<open>
  The modify step of \<open>ds3231_SQW_enable\<close>, bit by bit: bit 6 becomes \<open>enable\<close>, bit 2
  is cleared when enabling, every other bit is kept.
\<close>

lemma SQW_control_bits:
  "bit (SQW_control enable b) n =
     (if n = 6 then enable else if n = 2 then \<not> enable \<and> bit b 2 else bit b n)"
proof (cases "n < 8")
  case True
  then consider "n = 0" | "n = 1" | "n = 2" | "n = 3" | "n = 4" | "n = 5" | "n = 6" | "n = 7"
    by linarith
  then show ?thesis
    by cases (simp_all add: SQW_control_def bit_and_iff bit_or_iff)
next
  case False
  then have "\<not> bit (SQW_control enable b) n" "\<not> bit b n"
    by (auto dest: bit_imp_le_length)
  with False show ?thesis by simp
qed

text \<open>
  \<open>ds3231_SQW_enable\<close> gets to its write-back only when the two transfers before it
  came back with 0, and then \<open>msgBuf[1]\<close> still holds the register address: the byte it
  writes is made from \<open>0x0E\<close>, never from the control register.
\<close>

lemma SQW_enable_writes_constant:
  assumes t1: "TWI_start_transceiver_with_data False
                 ((map junk [0..<3])[0 := WRITE_ADD, 1 := CTRDR]) 2 s0 = Inr (0, b1, s1)"
      and t2: "TWI_start_transceiver_with_data False (b1[0 := READ_ADD]) 2 s1 = Inr (0, b2, s2)"
  shows "ds3231_SQW_enable enable junk s0 =
           (case TWI_start_transceiver_with_data False
                   [WRITE_ADD, CTRDR, SQW_control enable CTRDR] 3 s2 of
              Inl e \<Rightarrow> Inl e
            | Inr (r3, b3, s3) \<Rightarrow> if r3 \<noteq> 0 then Inr (false, s3) else Inr (true, s3))"
proof -
  have buf: "(map junk [0..<3])[0 := WRITE_ADD, 1 := CTRDR] = [WRITE_ADD, CTRDR, junk 2]"
    by (simp add: upt_rec eval_nat_numeral)
  have b1: "b1 = [WRITE_ADD, CTRDR, junk 2]"
    using failed_transfer_keeps_buffer [OF t1] buf by simp
  have b2: "b2 = [READ_ADD, CTRDR, junk 2]"
    using failed_transfer_keeps_buffer [OF t2] b1 by simp
  show ?thesis
    using t1 t2 unfolding ds3231_SQW_enable_def Let_def
    by (simp add: b2)
qed

text \<open>
  Claim C7 (the code fails it). The byte \<open>ds3231_SQW_enable\<close> writes back is to differ
  from the control byte it read in bit 6 only. With a chip that holds \<open>0x1C\<close>,
  acknowledges the pointer write and would answer the read and the write-back, the
  first transfer returns true and the function returns false at once: nothing is read
  and nothing written back (the samples of both later transfers are still unread).
  With a chip that answers only the third transfer the function does write, and the
  byte on the bus is \<open>0x4A\<close>, made from the register address, whatever the register
  holds. (Enabling also clears bit 2, INTCN, on purpose.)
\<close>

theorem SQW_enable_ignores_register:
  "ds3231_SQW_enable True (\<lambda>k. 0x25) chip_answers_control =
     Inr (false,
          idle\<lparr>USISR := 0xFE, TWI_state := 2, pin_scl := scl_high 49,
               usisr_in := (usisr_address @ usisr_byte @ [0x20])
                             @ (usisr_address @ usisr_byte @ usisr_byte @ [0x20]),
               usidr_in := [0xD1, 0xFE, 0x1C, 0xFF, 0xD0, 0xFE, 0x0E, 0xFE, 0x58, 0xFE],
               bus_log := [StartCond, Shift 0xF0 0xD0 0xD0, Shift 0xFE 0xFF 0xFE,
                           Shift 0xF0 0x0E 0x0E, Shift 0xFE 0xFF 0xFE, StopCond]\<rparr>)
   \<and> ds3231_SQW_enable True (\<lambda>k. 0x25) chip_answers_third =
     Inr (false,
          idle\<lparr>USISR := 0xFE, TWI_state := 2,
               bus_log := [StartCond, Shift 0xF0 0xD0 0xD0, Shift 0xFE 0xFF 0xFF,
                           StartCond, Shift 0xF0 0xD1 0xD1, Shift 0xFE 0xFF 0xFF,
                           StartCond, Shift 0xF0 0xD0 0xD0, Shift 0xFE 0xFF 0xFE,
                           Shift 0xF0 0x0E 0x0E, Shift 0xFE 0xFF 0xFE,
                           Shift 0xF0 0x4A 0x4A, Shift 0xFE 0xFF 0xFE, StopCond]\<rparr>)
   \<and> SQW_control True CTRDR = 0x4A"
  by code_simp

text \<open>
  \<open>ds3231_get_time_s\<close> never stores through a NULL pointer, returns false with the
  caller's memory unchanged when a transfer came back non-zero, and past both
  transfers stores the decoded bytes of the buffer through the pointers that are set
  (seconds, then minutes, then hours).
\<close>

lemma get_time_s_guarded_stores:
  "ds3231_get_time_s hour minute sec junk mem s0 \<noteq> Inl NullDeref
   \<and> (\<forall>r1 b1 s1. TWI_start_transceiver_with_data False
                    ((map junk [0..<4])[0 := WRITE_ADD, 1 := SECDR]) 2 s0 = Inr (r1, b1, s1) \<longrightarrow>
        (if r1 \<noteq> 0 then ds3231_get_time_s hour minute sec junk mem s0 = Inr (false, mem, s1)
         else
           (\<forall>r2 b2 s2. TWI_start_transceiver_with_data False (b1[0 := READ_ADD]) 4 s1
                          = Inr (r2, b2, s2) \<longrightarrow>
              ds3231_get_time_s hour minute sec junk mem s0 =
                (if r2 \<noteq> 0 then Inr (false, mem, s2)
                 else Inr (true,
                           (\<lambda>a. if hour = Some a then bcd2dec (b2 ! 3)
                                else if minute = Some a then bcd2dec (b2 ! 2)
                                else if sec = Some a then bcd2dec (b2 ! 1)
                                else mem a),
                           s2)))))"
proof -
  have stores:
    "(case (if sec \<noteq> None then store_u8 sec v1 mem else Inr mem) of
        Inl e \<Rightarrow> Inl e
      | Inr mem1 \<Rightarrow>
          (case (if minute \<noteq> None then store_u8 minute v2 mem1 else Inr mem1) of
             Inl e \<Rightarrow> Inl e
           | Inr mem2 \<Rightarrow>
               (case (if hour \<noteq> None then store_u8 hour v3 mem2 else Inr mem2) of
                  Inl e \<Rightarrow> Inl e
                | Inr mem3 \<Rightarrow> Inr (true, mem3, s)))) =
     Inr (true,
          (\<lambda>a. if hour = Some a then v3 else if minute = Some a then v2
               else if sec = Some a then v1 else mem a), s)"
    for v1 v2 v3 :: u8 and s :: machine
    by (cases sec; cases minute; cases hour) (auto simp: store_u8_def fun_eq_iff)
  have a: "ds3231_get_time_s hour minute sec junk mem s0 \<noteq> Inl NullDeref"
    unfolding ds3231_get_time_s_def Let_def stores
    by (auto split: sum.splits prod.splits dest: TWI_start_transceiver_with_data_fault)
  have b: "ds3231_get_time_s hour minute sec junk mem s0 = Inr (false, mem, s1)"
    if "TWI_start_transceiver_with_data False
          ((map junk [0..<4])[0 := WRITE_ADD, 1 := SECDR]) 2 s0 = Inr (r1, b1, s1)" "r1 \<noteq> 0"
    for r1 b1 s1
    using that unfolding ds3231_get_time_s_def Let_def stores by simp
  have c: "ds3231_get_time_s hour minute sec junk mem s0 =
                (if r2 \<noteq> 0 then Inr (false, mem, s2)
                 else Inr (true,
                           (\<lambda>a. if hour = Some a then bcd2dec (b2 ! 3)
                                else if minute = Some a then bcd2dec (b2 ! 2)
                                else if sec = Some a then bcd2dec (b2 ! 1)
                                else mem a),
                           s2))"
    if "TWI_start_transceiver_with_data False
          ((map junk [0..<4])[0 := WRITE_ADD, 1 := SECDR]) 2 s0 = Inr (0, b1, s1)"
       "TWI_start_transceiver_with_data False (b1[0 := READ_ADD]) 4 s1 = Inr (r2, b2, s2)"
    for b1 s1 r2 b2 s2
    using that unfolding ds3231_get_time_s_def Let_def stores by simp
  show ?thesis
    using a b c by auto
qed

text \<open>
  Claim C10 (the code fails it). The function is to make its two transfers and give
  each non-NULL output the decoded value, skipping the NULL ones. The NULL tests are
  there, but with \<open>min\<close> NULL and a chip that holds 14:30:00, acknowledges the pointer
  write and would answer the read, the first transfer returns true and the function
  returns false at once: one transfer is made, the read is never started and neither
  output is stored. With nothing on the bus both transfers return false and the
  function returns true, storing the decoded register address as the seconds and a
  decoded stack byte as the hours.
\<close>

theorem get_time_s_return_inverted:
  "(case ds3231_get_time_s (Some 0) None (Some 1) (\<lambda>k. 0x25) (\<lambda>a. 0x77) chip_answers_hms of
      Inl e \<Rightarrow> False
    | Inr (r, mem', s') \<Rightarrow>
        r = false \<and> mem' 0 = 0x77 \<and> mem' 1 = 0x77
        \<and> bus_log s' = [StartCond, Shift 0xF0 0xD0 0xD0, Shift 0xFE 0xFF 0xFE,
                         Shift 0xF0 0x00 0x00, Shift 0xFE 0xFF 0xFE, StopCond]
        \<and> usidr_in s' = [0xD1, 0xFE, 0x00, 0x00, 0x30, 0x00, 0x14, 0xFF])
   \<and> (case ds3231_get_time_s (Some 0) None (Some 1) (\<lambda>k. 0x25) (\<lambda>a. 0x77)
              (no_answer [WRITE_ADD, READ_ADD]) of
      Inl e \<Rightarrow> False
    | Inr (r, mem', s') \<Rightarrow>
        r = true \<and> mem' 0 = 25 \<and> mem' 1 = 0 \<and> mem' 2 = 0x77
        \<and> bus_log s' = [StartCond, Shift 0xF0 0xD0 0xD0, Shift 0xFE 0xFF 0xFF,
                         StartCond, Shift 0xF0 0xD1 0xD1, Shift 0xFE 0xFF 0xFF])"
  by code_simp

end
